theory Spec2Isabelle
  imports Complex_Main "HOL-Library.Multiset" "HOL-Library.Char_ord" "HOL-Library.List_Lexorder"
begin

section \<open>JavaScript values used by the property pipeline\<close>

text \<open>
  Strings are lists of characters, a character being one of the first 256 code points.
  Numbers are doubles: not-a-number, the two infinities, or a finite value, which is a
  rational. Every finite value the model builds is a double, because \<open>parseFloat\<close>
  rounds what it reads to the nearest double as the runtime does. Zero has one sign
  only; the sign of zero is never observed by the code.
\<close>

datatype number = NaN | PosInf | NegInf | Fin rat

definition truthyNum :: "number \<Rightarrow> bool" where
  "truthyNum x = (case x of NaN \<Rightarrow> False | Fin r \<Rightarrow> r \<noteq> 0 | _ \<Rightarrow> True)"

text \<open>\<open>x || 0\<close> on a number.\<close>

definition orZero :: "number \<Rightarrow> number" where
  "orZero x = (if truthyNum x then x else Fin 0)"

text \<open>\<open>x > c\<close> and \<open>x < c\<close> on a number and a finite constant: false on NaN.\<close>

definition numGt :: "number \<Rightarrow> rat \<Rightarrow> bool" where
  "numGt x c = (case x of NaN \<Rightarrow> False | PosInf \<Rightarrow> True | NegInf \<Rightarrow> False | Fin r \<Rightarrow> c < r)"

definition numLt :: "number \<Rightarrow> rat \<Rightarrow> bool" where
  "numLt x c = (case x of NaN \<Rightarrow> False | PosInf \<Rightarrow> False | NegInf \<Rightarrow> True | Fin r \<Rightarrow> r < c)"

subsection \<open>String operations\<close>

definition code :: "char \<Rightarrow> nat" where
  "code c = of_char c"

text \<open>
  The case mappings of Unicode on the first 256 code points. The small letters are
  \<open>a\<close> to \<open>z\<close> and U+00E0 to U+00FE without the division sign U+00F7; each is 32
  above its capital. The sharp s U+00DF becomes \<open>SS\<close>. The micro sign U+00B5 and
  the y with diaeresis U+00FF have their capitals at U+039C and U+0178, which are not
  among the 256 characters of the model: they are left as they are, and the model says
  nothing about text that holds them.
\<close>

definition toUpperChar :: "char \<Rightarrow> string" where
  "toUpperChar c =
     (if (97 \<le> code c \<and> code c \<le> 122) \<or> (224 \<le> code c \<and> code c \<le> 254 \<and> code c \<noteq> 247)
      then [char_of (code c - 32)]
      else if code c = 223 then ''SS''
      else [c])"

definition toLowerChar :: "char \<Rightarrow> char" where
  "toLowerChar c =
     (if (65 \<le> code c \<and> code c \<le> 90) \<or> (192 \<le> code c \<and> code c \<le> 222 \<and> code c \<noteq> 215)
      then char_of (code c + 32)
      else c)"

definition toUpperCase :: "string \<Rightarrow> string" where
  "toUpperCase s = concat (map toUpperChar s)"

definition toLowerCase :: "string \<Rightarrow> string" where
  "toLowerCase s = map toLowerChar s"

text \<open>White space and line terminators among the first 256 code points.\<close>

definition isSpace :: "char \<Rightarrow> bool" where
  "isSpace c = (code c \<in> {9, 10, 11, 12, 13, 32, 160})"

definition trimStart :: "string \<Rightarrow> string" where
  "trimStart s = dropWhile isSpace s"

definition trim :: "string \<Rightarrow> string" where
  "trim s = rev (dropWhile isSpace (rev (dropWhile isSpace s)))"

text \<open>\<open>s.split(d)\<close> for a one-character separator: never the empty list.\<close>

fun split :: "char \<Rightarrow> string \<Rightarrow> string list" where
  "split d [] = [[]]"
| "split d (c # cs) =
     (if c = d then [] # split d cs
      else (case split d cs of [] \<Rightarrow> [[c]] | f # fs \<Rightarrow> (c # f) # fs))"

fun startsWith :: "string \<Rightarrow> string \<Rightarrow> bool" where
  "startsWith s [] = True"
| "startsWith [] (p # ps) = False"
| "startsWith (c # cs) (p # ps) = (c = p \<and> startsWith cs ps)"

definition endsWith :: "string \<Rightarrow> string \<Rightarrow> bool" where
  "endsWith s p = startsWith (rev s) (rev p)"

text \<open>\<open>s.includes(p)\<close>: \<open>p\<close> occurs in \<open>s\<close> as a contiguous substring.\<close>

fun strIncludes :: "string \<Rightarrow> string \<Rightarrow> bool" where
  "strIncludes [] p = (p = [])"
| "strIncludes (c # cs) p = (startsWith (c # cs) p \<or> strIncludes cs p)"

text \<open>\<open>a || b\<close> on strings: the empty string is falsy.\<close>

definition orStr :: "string \<Rightarrow> string \<Rightarrow> string" where
  "orStr a b = (if a \<noteq> [] then a else b)"

subsection \<open>parseFloat\<close>

definition isDigit :: "char \<Rightarrow> bool" where
  "isDigit c = (48 \<le> code c \<and> code c \<le> 57)"

definition digitVal :: "char \<Rightarrow> nat" where
  "digitVal c = code c - 48"

definition digitsVal :: "string \<Rightarrow> nat" where
  "digitsVal ds = foldl (\<lambda>acc c. 10 * acc + digitVal c) 0 ds"

text \<open>
  The exponent part \<open>e\<close>, an optional sign and at least one digit; without a digit the
  \<open>e\<close> is not part of the literal and the exponent is 0.
\<close>

definition exponentPart :: "string \<Rightarrow> int" where
  "exponentPart s =
     (case s of
        [] \<Rightarrow> 0
      | c # r \<Rightarrow>
          if c = CHR ''e'' \<or> c = CHR ''E'' then
            (case r of
               [] \<Rightarrow> 0
             | sg # r' \<Rightarrow>
                 if sg = CHR ''-'' then
                   (if takeWhile isDigit r' = [] then 0 else - int (digitsVal (takeWhile isDigit r')))
                 else if sg = CHR ''+'' then int (digitsVal (takeWhile isDigit r'))
                 else int (digitsVal (takeWhile isDigit r)))
          else 0)"

text \<open>
  The double nearest to a positive fraction \<open>p / q\<close>, ties going to the even
  significand. \<open>binaryExponent\<close> is the integer part of the binary logarithm of the
  fraction. The unit of the result is 52 binary places below it, and never below
  \<open>2^-1074\<close>, the smallest positive double; the fraction is rounded to a multiple of
  the unit. What reaches \<open>2^1024\<close> is infinity, what rounds to no unit is zero.
\<close>

fun floorLog2 :: "nat \<Rightarrow> nat" where
  "floorLog2 n = (if n < 2 then 0 else Suc (floorLog2 (n div 2)))"

declare floorLog2.simps [simp del]

definition pow2 :: "int \<Rightarrow> rat" where
  "pow2 e = (if 0 \<le> e then 2 ^ nat e else 1 / 2 ^ nat (- e))"

definition roundDiv :: "nat \<Rightarrow> nat \<Rightarrow> nat" where
  "roundDiv n d =
     (if 2 * (n mod d) < d then n div d
      else if d < 2 * (n mod d) then n div d + 1
      else if even (n div d) then n div d else n div d + 1)"

definition binaryExponent :: "nat \<Rightarrow> nat \<Rightarrow> int" where
  "binaryExponent p q =
     (if q \<le> p then int (floorLog2 (p div q))
      else - int (Suc (floorLog2 ((q + p - 1) div p - 1))))"

definition nearestDouble :: "nat \<Rightarrow> nat \<Rightarrow> number" where
  "nearestDouble p q =
     (if p = 0 then Fin 0
      else
        let u = max (binaryExponent p q - 52) (- 1074);
            m = (if u < 0 then roundDiv (p * 2 ^ nat (- u)) q else roundDiv p (q * 2 ^ nat u));
            v = of_nat m * pow2 u
        in if 2 ^ 1024 \<le> v then PosInf else Fin v)"

text \<open>The double nearest to the decimal \<open>n * 10^x\<close>.\<close>

definition decimalToDouble :: "nat \<Rightarrow> int \<Rightarrow> number" where
  "decimalToDouble n x =
     (if 0 \<le> x then nearestDouble (n * 10 ^ nat x) 1 else nearestDouble n (10 ^ nat (- x)))"

text \<open>
  An unsigned decimal literal at the start of the string: \<open>Infinity\<close>, or digits with an
  optional fraction and exponent, or a fraction that starts with the point. The longest
  such prefix is read and the rest of the string is ignored. The digits before and after
  the point are the digits of one integer, whose decimal exponent is the exponent part
  less the number of digits after the point.
\<close>

definition unsignedLiteral :: "string \<Rightarrow> number" where
  "unsignedLiteral s =
     (if startsWith s ''Infinity'' then PosInf
      else
        let ip = takeWhile isDigit s; r1 = dropWhile isDigit s in
        (case r1 of
           [] \<Rightarrow> if ip = [] then NaN else decimalToDouble (digitsVal ip) 0
         | c # r2 \<Rightarrow>
             if c = CHR ''.'' then
               (let fp = takeWhile isDigit r2; r3 = dropWhile isDigit r2 in
                if ip = [] \<and> fp = [] then NaN
                else decimalToDouble (digitsVal (ip @ fp)) (exponentPart r3 - int (length fp)))
             else if ip = [] then NaN
             else decimalToDouble (digitsVal ip) (exponentPart r1)))"

definition negate :: "number \<Rightarrow> number" where
  "negate x = (case x of NaN \<Rightarrow> NaN | PosInf \<Rightarrow> NegInf | NegInf \<Rightarrow> PosInf | Fin r \<Rightarrow> Fin (- r))"

definition parseFloat :: "string \<Rightarrow> number" where
  "parseFloat s =
     (case trimStart s of
        [] \<Rightarrow> NaN
      | c # r \<Rightarrow>
          if c = CHR ''-'' then negate (unsignedLiteral r)
          else if c = CHR ''+'' then unsignedLiteral r
          else unsignedLiteral (c # r))"

section \<open>RecordParser\<close>

record property =
  recordType :: string
  districtCode :: string
  propertyId :: string
  saleCounter :: string
  downloadDateTime :: string
  propertyName :: string
  unitNumber :: string
  houseNumber :: string
  streetName :: string
  locality :: string
  postcode :: string
  area :: number
  areaType :: string
  contractDate :: string
  settlementDate :: string
  salePrice :: number
  zoning :: string
  natureOfProperty :: string
  primaryPurpose :: string
  strataLot :: string
  year :: nat
  address :: string
  suburb :: string
  propertyType :: string
  saleDate :: "string option"

definition determinePropertyType :: "string \<Rightarrow> string \<Rightarrow> string" where
  "determinePropertyType nature purpose =
     (if nature = ''V'' then ''Vacant Land''
      else if nature = ''R'' then ''Residence''
      else if purpose \<noteq> [] \<and> strIncludes purpose ''RESIDENCE'' then ''House''
      else if purpose \<noteq> [] \<and> strIncludes purpose ''UNIT'' then ''Unit''
      else if purpose \<noteq> [] \<and> strIncludes purpose ''TOWNHOUSE'' then ''Townhouse''
      else if nature = ''3'' \<and> purpose \<noteq> [] then purpose
      else ''Property'')"

text \<open>\<open>s.substring(i, j)\<close> for \<open>i \<le> j\<close>.\<close>

definition substring :: "string \<Rightarrow> nat \<Rightarrow> nat \<Rightarrow> string" where
  "substring s i j = take (j - i) (drop i s)"

definition formatDate :: "string \<Rightarrow> string option" where
  "formatDate dateStr =
     (if dateStr = [] \<or> length dateStr \<noteq> 8 then None
      else Some (substring dateStr 0 4 @ ''-'' @ substring dateStr 4 6 @ ''-''
                 @ substring dateStr 6 8))"

text \<open>The full address, before trimming and upper-casing.\<close>

definition fullAddress :: "string \<Rightarrow> string \<Rightarrow> string \<Rightarrow> string" where
  "fullAddress unit house street =
     (if unit \<noteq> [] then unit @ ''/'' else [])
     @ (if house \<noteq> [] then house @ '' '' else [])
     @ (if street \<noteq> [] then street else [])"

text \<open>
  The record built from the fields, before validation. It is only used on a line with
  at least 20 fields, so every index is in range. The year is the integer the caller
  took from the archive's name, which \<open>parseInt\<close> returns unchanged.
\<close>

definition buildProperty :: "string list \<Rightarrow> nat \<Rightarrow> property" where
  "buildProperty flds yr =
     \<lparr> recordType = flds ! 0,
       districtCode = flds ! 1,
       propertyId = flds ! 2,
       saleCounter = flds ! 3,
       downloadDateTime = flds ! 4,
       propertyName = orStr (flds ! 5) [],
       unitNumber = orStr (flds ! 6) [],
       houseNumber = orStr (flds ! 7) [],
       streetName = orStr (flds ! 8) [],
       locality = orStr (flds ! 9) [],
       postcode = orStr (flds ! 10) [],
       area = orZero (parseFloat (flds ! 11)),
       areaType = orStr (flds ! 12) [],
       contractDate = orStr (flds ! 13) [],
       settlementDate = orStr (flds ! 14) [],
       salePrice = orZero (parseFloat (flds ! 15)),
       zoning = orStr (flds ! 16) [],
       natureOfProperty = orStr (flds ! 17) [],
       primaryPurpose = orStr (flds ! 18) [],
       strataLot = orStr (flds ! 19) [],
       year = yr,
       address = toUpperCase (trim (fullAddress (orStr (flds ! 6) []) (orStr (flds ! 7) [])
                   (orStr (flds ! 8) []))),
       suburb = toUpperCase (orStr (flds ! 9) []),
       propertyType = determinePropertyType (orStr (flds ! 17) []) (orStr (flds ! 18) []),
       saleDate = formatDate (orStr (flds ! 14) []) \<rparr>"

text \<open>
  \<open>None\<close> is the null result. No operation of the body throws on a string, so the
  handler of the \<open>try\<close> block is never entered.
\<close>

definition parsePropertyLine :: "string \<Rightarrow> nat \<Rightarrow> property option" where
  "parsePropertyLine line yr =
     (let flds = split CHR '';'' line in
      if length flds < 20 then None
      else
        let p = buildProperty flds yr in
        if address p \<noteq> [] \<and> suburb p \<noteq> []
           \<and> numGt (salePrice p) 1000 \<and> numLt (salePrice p) 50000000
        then Some p else None)"

text \<open>
  The sample line of the format's documentation, with the house number, the street name
  and the price left open.
\<close>

definition sampleWith :: "string \<Rightarrow> string \<Rightarrow> string \<Rightarrow> string" where
  "sampleWith house street price =
     ''B;001;1667;1;20200106 01:00;;;'' @ house @ '';'' @ street
     @ '';ABERDARE;2325;1011.83;M;20191116;20191230;''
     @ price @ '';R2;R;RESIDENCE;;AAD;;0;AP807655;''"

definition sampleWithPrice :: "string \<Rightarrow> string" where
  "sampleWithPrice price = sampleWith ''103'' ''RAWSON ST'' price"

definition sampleLine :: string where
  "sampleLine = sampleWithPrice ''260000''"

text \<open>The record the sample line parses to, for a house number, a street and a price.\<close>

definition sampleRecord :: "string \<Rightarrow> string \<Rightarrow> number \<Rightarrow> nat \<Rightarrow> property" where
  "sampleRecord h s price yr =
     \<lparr>recordType = ''B'', districtCode = ''001'', propertyId = ''1667'',
       saleCounter = ''1'', downloadDateTime = ''20200106 01:00'',
       propertyName = [], unitNumber = [], houseNumber = h,
       streetName = s, locality = ''ABERDARE'',
       postcode = ''2325'', area = Fin (8900150802660721 / 2 ^ 43), areaType = ''M'',
       contractDate = ''20191116'', settlementDate = ''20191230'',
       salePrice = price, zoning = ''R2'', natureOfProperty = ''R'',
       primaryPurpose = ''RESIDENCE'', strataLot = [], year = yr,
       address = toUpperCase (trim (fullAddress [] h s)), suburb = ''ABERDARE'',
       propertyType = ''Residence'', saleDate = Some ''2019-12-30''\<rparr>"

text \<open>The sample line cut after its 19th field.\<close>

definition shortLine :: string where
  "shortLine =
     ''B;001;1667;1;20200106 01:00;;;103;RAWSON ST;ABERDARE;2325;1011.83;M;20191116;20191230;260000;R2;R;RESIDENCE''"

section \<open>The compact encoding of a record\<close>

text \<open>
  A JavaScript object is the list of its own properties. The values a record holds are
  strings, numbers and \<open>null\<close>; reading a missing property gives \<open>undefined\<close>.
\<close>

datatype jsval = Undefined | Null | Str string | Num number

type_synonym jsobj = "(string \<times> jsval) list"

definition getProp :: "jsobj \<Rightarrow> string \<Rightarrow> jsval" where
  "getProp ob k = (case map_of ob k of None \<Rightarrow> Undefined | Some v \<Rightarrow> v)"

definition truthy :: "jsval \<Rightarrow> bool" where
  "truthy v = (case v of Undefined \<Rightarrow> False | Null \<Rightarrow> False | Str s \<Rightarrow> s \<noteq> []
               | Num n \<Rightarrow> truthyNum n)"

text \<open>\<open>a || b\<close>.\<close>

definition orVal :: "jsval \<Rightarrow> jsval \<Rightarrow> jsval" where
  "orVal a b = (if truthy a then a else b)"

definition dateVal :: "string option \<Rightarrow> jsval" where
  "dateVal d = (case d of None \<Rightarrow> Null | Some s \<Rightarrow> Str s)"

definition compressProperty :: "property \<Rightarrow> jsobj" where
  "compressProperty p =
     [(''a'', Str (address p)),
      (''s'', Str (suburb p)),
      (''p'', Str (postcode p)),
      (''t'', Str (propertyType p)),
      (''$'', Num (salePrice p)),
      (''d'', dateVal (saleDate p)),
      (''l'', Str (districtCode p)),
      (''m'', Num (area p)),
      (''y'', Num (Fin (of_nat (year p)))),
      (''z'', Str (zoning p)),
      (''n'', Str (natureOfProperty p))]"

definition decompressProperty :: "jsobj \<Rightarrow> jsobj" where
  "decompressProperty cp =
     [(''address'', orVal (orVal (getProp cp ''a'') (getProp cp ''address'')) (Str [])),
      (''suburb'', orVal (orVal (getProp cp ''s'') (getProp cp ''suburb'')) (Str [])),
      (''postcode'', orVal (orVal (getProp cp ''p'') (getProp cp ''postcode'')) (Str [])),
      (''propertyType'', orVal (orVal (getProp cp ''t'') (getProp cp ''propertyType'')) (Str [])),
      (''salePrice'', orVal (orVal (getProp cp ''$'') (getProp cp ''salePrice'')) (Num (Fin 0))),
      (''saleDate'', orVal (orVal (getProp cp ''d'') (getProp cp ''saleDate'')) (Str [])),
      (''districtCode'', orVal (orVal (getProp cp ''l'') (getProp cp ''districtCode'')) (Str [])),
      (''area'', orVal (orVal (getProp cp ''m'') (getProp cp ''area'')) (Num (Fin 0))),
      (''year'', orVal (orVal (getProp cp ''y'') (getProp cp ''year'')) (Num (Fin 0))),
      (''zoning'', orVal (orVal (getProp cp ''z'') (getProp cp ''zoning'')) (Str [])),
      (''natureOfProperty'',
         orVal (orVal (getProp cp ''n'') (getProp cp ''natureOfProperty'')) (Str []))]"

section \<open>JavaScript objects used as dictionaries\<close>

text \<open>
  \<open>String(n)\<close> for a non-negative integer, and \<open>s.padStart(n, c)\<close>.
\<close>

definition digitChar :: "nat \<Rightarrow> char" where
  "digitChar d = char_of (48 + d)"

fun showNat :: "nat \<Rightarrow> string" where
  "showNat n = (if n < 10 then [digitChar n] else showNat (n div 10) @ [digitChar (n mod 10)])"

declare showNat.simps [simp del]

definition padStart :: "nat \<Rightarrow> char \<Rightarrow> string \<Rightarrow> string" where
  "padStart n c s = replicate (n - length s) c @ s"

text \<open>
  A property key that is an array index: the canonical decimal form of an integer below
  \<open>2^32 - 1\<close>. The own keys of an object are listed with the array indices first, in
  ascending numeric order, and then the other keys in the order they were created.
\<close>

definition arrayIndex :: "string \<Rightarrow> nat option" where
  "arrayIndex k =
     (if k \<noteq> [] \<and> list_all isDigit k \<and> showNat (digitsVal k) = k \<and> digitsVal k < 2 ^ 32 - 1
      then Some (digitsVal k) else None)"

definition objectKeys :: "(string \<times> 'v) list \<Rightarrow> string list" where
  "objectKeys ob =
     map showNat (sort (List.map_filter arrayIndex (map fst ob)))
     @ filter (\<lambda>k. arrayIndex k = None) (map fst ob)"

text \<open>
  An object literal \<open>{}\<close> inherits from \<open>Object.prototype\<close>. Reading a key that is
  not an own property finds the inherited members: \<open>constructor\<close> is the function
  \<open>Object\<close> and \<open>__proto__\<close> is \<open>Object.prototype\<close> itself. Both are truthy
  and neither is an array. The other members of \<open>Object.prototype\<close> have a capital
  letter in their names, so a lower-cased key never meets them.
\<close>

definition inheritedKey :: "string \<Rightarrow> bool" where
  "inheritedKey k = (k = ''constructor'' \<or> k = ''__proto__'')"

datatype error = TypeError | ReadError

section \<open>ChunkWriter\<close>

text \<open>
  \<open>config.recordsPerChunk || 5000\<close> of the constructor: an absent value and 0 give the
  default. The value is a count of records, a natural number.
\<close>

definition recordsPerChunkOf :: "nat option \<Rightarrow> nat" where
  "recordsPerChunkOf c = (case c of None \<Rightarrow> 5000 | Some n \<Rightarrow> if n = 0 then 5000 else n)"

text \<open>
  The files ChunkWriter writes, named relative to the output directory. The byte size of
  a chunk and the creation time of the manifest come from the file system and the clock
  and are left out; a write is taken to succeed.
\<close>

record chunkData =
  chunkYear :: nat
  chunkId :: string
  chunkCount :: nat
  chunkProperties :: "jsobj list"

record chunkEntry =
  filename :: string
  count :: nat

record manifest =
  manifestYear :: nat
  totalProperties :: nat
  chunks :: "chunkEntry list"

record addressData =
  fileAddress :: string
  fileCount :: nat
  fileProperties :: "jsobj list"

text \<open>\<open>xs.slice(i, j)\<close> for \<open>0 \<le> i \<le> j\<close>.\<close>

definition slice :: "'a list \<Rightarrow> nat \<Rightarrow> nat \<Rightarrow> 'a list" where
  "slice xs i j = take (j - i) (drop i xs)"

text \<open>
  One turn of the chunk loop: the name and the content of the file written for the page
  that starts at \<open>i\<close>. The name is the file's name inside the year's directory.
\<close>

definition writeChunk :: "nat \<Rightarrow> nat \<Rightarrow> property list \<Rightarrow> nat \<Rightarrow> string \<times> chunkData" where
  "writeChunk yr chunkSize props i =
     (let pageProperties = slice props i (i + chunkSize);
          cid = padStart 3 CHR ''0'' (showNat (i div chunkSize))
      in (''properties-'' @ showNat yr @ ''-'' @ cid @ ''.json'',
          \<lparr> chunkYear = yr, chunkId = cid, chunkCount = length pageProperties,
            chunkProperties = map compressProperty pageProperties \<rparr>))"

text \<open>
  The loop \<open>for (i = 0; i < properties.length; i += chunkSize)\<close>. With a chunk size of 0
  it never ends, which is the value \<open>None\<close>.
\<close>

partial_function (option) chunkLoop ::
  "nat \<Rightarrow> nat \<Rightarrow> property list \<Rightarrow> nat \<Rightarrow> (string \<times> chunkData) list
     \<Rightarrow> (string \<times> chunkData) list option" where
  "chunkLoop yr chunkSize props i written =
     (if i < length props
      then chunkLoop yr chunkSize props (i + chunkSize)
             (written @ [writeChunk yr chunkSize props i])
      else Some written)"

text \<open>The indices at which the loop starts a page, for a list of \<open>len\<close> records.\<close>

function starts :: "nat \<Rightarrow> nat \<Rightarrow> nat \<Rightarrow> nat list" where
  "starts n len i = (if 0 < n \<and> i < len then i # starts n len (i + n) else [])"
  by pat_completeness auto
termination
  by (relation "measure (\<lambda>(n, len, i). len - i)") auto

declare starts.simps [simp del]

subsection \<open>Address files\<close>

text \<open>
  \<open>Buffer.from(address)\<close>: the UTF-8 bytes of the string, two bytes for a code point
  from 128 to 255.
\<close>

definition utf8 :: "string \<Rightarrow> nat list" where
  "utf8 s = concat (map (\<lambda>c. if code c < 128 then [code c]
                              else [192 + code c div 64, 128 + code c mod 64]) s)"

definition base64Char :: "nat \<Rightarrow> char" where
  "base64Char n =
     ''ABCDEFGHIJKLMNOPQRSTUVWXYZabcdefghijklmnopqrstuvwxyz0123456789+/'' ! n"

fun base64 :: "nat list \<Rightarrow> string" where
  "base64 [] = []"
| "base64 [a] = [base64Char (a div 4), base64Char ((a mod 4) * 16), CHR ''='', CHR ''='']"
| "base64 [a, b] =
     [base64Char (a div 4), base64Char ((a mod 4) * 16 + b div 16),
      base64Char ((b mod 16) * 4), CHR ''='']"
| "base64 (a # b # c # r) =
     [base64Char (a div 4), base64Char ((a mod 4) * 16 + b div 16),
      base64Char ((b mod 16) * 4 + c div 64), base64Char (c mod 64)] @ base64 r"

definition hashAddress :: "string \<Rightarrow> string" where
  "hashAddress a =
     take 12 (filter (\<lambda>c. c \<noteq> CHR ''/'' \<and> c \<noteq> CHR ''+'' \<and> c \<noteq> CHR ''='') (base64 (utf8 a)))"

text \<open>
  Grouping by lower-cased address. \<open>addressGroups\<close> is an object literal: an address that
  is an inherited key is found truthy without being an own property, and \<open>push\<close>, which
  the inherited value does not have, raises a type error.
\<close>

fun addToGroup :: "(string \<times> property list) list \<Rightarrow> string \<Rightarrow> property
                     \<Rightarrow> (string \<times> property list) list" where
  "addToGroup [] k p = [(k, [p])]"
| "addToGroup ((k', ps) # g) k p =
     (if k' = k then (k', ps @ [p]) # g else (k', ps) # addToGroup g k p)"

fun groupByAddress :: "(string \<times> property list) list \<Rightarrow> property list
                         \<Rightarrow> error + (string \<times> property list) list" where
  "groupByAddress g [] = Inr g"
| "groupByAddress g (p # ps) =
     (let addr = toLowerCase (address p) in
      if map_of g addr = None \<and> inheritedKey addr then Inl TypeError
      else groupByAddress (addToGroup g addr p) ps)"

definition groupOf :: "(string \<times> property list) list \<Rightarrow> string \<Rightarrow> property list" where
  "groupOf g k = (case map_of g k of None \<Rightarrow> [] | Some ps \<Rightarrow> ps)"

definition addressFileName :: "nat \<Rightarrow> string \<Rightarrow> string" where
  "addressFileName yr addr = showNat yr @ ''/addresses/'' @ hashAddress addr @ ''.json''"

definition writeAddressFile :: "nat \<Rightarrow> string \<Rightarrow> property list \<Rightarrow> string \<times> addressData" where
  "writeAddressFile yr addr addressProps =
     (addressFileName yr addr,
      \<lparr> fileAddress = address (hd addressProps), fileCount = length addressProps,
        fileProperties = map compressProperty addressProps \<rparr>)"

text \<open>The writes of \<open>createAddressFiles\<close>, in order; a later write to a name replaces an earlier one.\<close>

definition createAddressFiles :: "nat \<Rightarrow> property list \<Rightarrow> error + (string \<times> addressData) list" where
  "createAddressFiles yr props =
     (case groupByAddress [] props of
        Inl e \<Rightarrow> Inl e
      | Inr g \<Rightarrow>
          Inr (map (\<lambda>k. writeAddressFile yr k (groupOf g k))
                 (filter (\<lambda>k. 1 < length (groupOf g k)) (objectKeys g))))"

subsection \<open>Chunks and manifest\<close>

text \<open>
  \<open>localeCompare\<close> orders strings by the collation of the host's locale, which compares
  the collation keys of the two strings. The key is a parameter \<open>collate\<close> of the model;
  the sort of the runtime is stable.
\<close>

record chunkResult =
  chunkFiles :: "(string \<times> chunkData) list"
  manifestFile :: "string \<times> manifest"
  addressFiles :: "error + (string \<times> addressData) list"

text \<open>
  The result lists the files written, each under its name relative to the output
  directory. The chunks and the manifest are written before the address files: when
  \<open>createAddressFiles\<close> raises, they are on disk and the call fails with that error.
\<close>

definition createOptimizedChunks ::
  "(string \<Rightarrow> 'k::linorder) \<Rightarrow> nat \<Rightarrow> nat \<Rightarrow> property list \<Rightarrow> chunkResult option" where
  "createOptimizedChunks collate chunkSize yr props =
     (let sorted = sort_key (\<lambda>p. collate (address p)) props in
      case chunkLoop yr chunkSize sorted 0 [] of
        None \<Rightarrow> None
      | Some written \<Rightarrow>
          Some \<lparr> chunkFiles = map (\<lambda>(fname, cd). (showNat yr @ ''/'' @ fname, cd)) written,
                 manifestFile =
                   (showNat yr @ ''/manifest.json'',
                    \<lparr> manifestYear = yr, totalProperties = length sorted,
                      chunks = map (\<lambda>(fname, cd). \<lparr> filename = fname, count = chunkCount cd \<rparr>)
                                 written \<rparr>),
                 addressFiles = createAddressFiles yr sorted \<rparr>)"

section \<open>ArchiveScanner\<close>

text \<open>
  An archive is the list of its entries. An entry has a name, a directory flag and its
  data: \<open>Broken\<close> when reading it or opening it as an archive raises, \<open>Bytes\<close> for
  content that is not an archive (opening it raises as well), \<open>Nested\<close> for content
  that opens as an archive. Nesting is a tree, as the datatype says.
\<close>

datatype archive = Archive (getEntries: "entry list")
  and entry = Entry (entryName: string) (isDirectory: bool) (getData: payload)
  and payload = Broken | Bytes string | Nested archive

definition isDat :: "entry \<Rightarrow> bool" where
  "isDat e = (\<not> isDirectory e \<and> endsWith (toLowerCase (entryName e)) ''.dat'')"

definition isZip :: "entry \<Rightarrow> bool" where
  "isZip e = (\<not> isDirectory e \<and> endsWith (toLowerCase (entryName e)) ''.zip'')"

text \<open>
  The scan of one archive, of one entry and of the data of a nested archive. The
  \<open>try\<close> block around the nested scan turns a failure to open into no entries. The
  counters of file types, which are only logged, are left out.
\<close>

fun findDATFilesRecursively :: "archive \<Rightarrow> entry list"
  and scanEntry :: "entry \<Rightarrow> entry list"
  and scanNested :: "payload \<Rightarrow> entry list" where
  "findDATFilesRecursively (Archive es) = concat (map scanEntry es)"
| "scanEntry (Entry name dir d) =
     (if \<not> dir \<and> endsWith (toLowerCase name) ''.dat'' then [Entry name dir d] else [])
     @ (if \<not> dir \<and> endsWith (toLowerCase name) ''.zip'' then scanNested d else [])"
| "scanNested Broken = []"
| "scanNested (Bytes b) = []"
| "scanNested (Nested z) = findDATFilesRecursively z"

text \<open>
  The raw-data entries of an archive in the words of the specification: the entries
  whose name has the raw-data extension, at every nesting depth, where any entry that is
  itself an archive is entered. An occurrence is named by its path, the positions of the
  enclosing entries from the outermost archive inwards and then its own position.
\<close>

inductive rawDataAt :: "archive \<Rightarrow> nat list \<Rightarrow> entry \<Rightarrow> bool" where
  here: "i < length es \<Longrightarrow> es ! i = e \<Longrightarrow> isDat e \<Longrightarrow> rawDataAt (Archive es) [i] e"
| nested: "i < length es \<Longrightarrow> \<not> isDirectory (es ! i) \<Longrightarrow> getData (es ! i) = Nested z
           \<Longrightarrow> rawDataAt z p e \<Longrightarrow> rawDataAt (Archive es) (i # p) e"

code_pred rawDataAt .

text \<open>
  The same with the guard of the code: only an entry that is not a directory and whose
  name ends in \<open>.zip\<close>, in any case of the letters, is entered.
\<close>

inductive scannedAt :: "archive \<Rightarrow> nat list \<Rightarrow> entry \<Rightarrow> bool" where
  here: "i < length es \<Longrightarrow> es ! i = e \<Longrightarrow> isDat e \<Longrightarrow> scannedAt (Archive es) [i] e"
| nested: "i < length es \<Longrightarrow> isZip (es ! i) \<Longrightarrow> getData (es ! i) = Nested z
           \<Longrightarrow> scannedAt z p e \<Longrightarrow> scannedAt (Archive es) (i # p) e"

code_pred scannedAt .

text \<open>The scan with the path of every entry it returns; it is used to state the order.\<close>

fun scanPaths :: "archive \<Rightarrow> (nat list \<times> entry) list"
  and scanFrom :: "nat \<Rightarrow> entry list \<Rightarrow> (nat list \<times> entry) list"
  and entryPaths :: "nat \<Rightarrow> entry \<Rightarrow> (nat list \<times> entry) list"
  and nestedPaths :: "payload \<Rightarrow> (nat list \<times> entry) list" where
  "scanPaths (Archive es) = scanFrom 0 es"
| "scanFrom i [] = []"
| "scanFrom i (e # es) = entryPaths i e @ scanFrom (Suc i) es"
| "entryPaths i (Entry name dir d) =
     (if \<not> dir \<and> endsWith (toLowerCase name) ''.dat'' then [([i], Entry name dir d)] else [])
     @ (if \<not> dir \<and> endsWith (toLowerCase name) ''.zip''
        then map (\<lambda>(p, x). (i # p, x)) (nestedPaths d) else [])"
| "nestedPaths Broken = []"
| "nestedPaths (Bytes b) = []"
| "nestedPaths (Nested z) = scanPaths z"

text \<open>An archive that holds a nested archive under a name that does not end in \<open>.zip\<close>.\<close>

definition renamedArchive :: archive where
  "renamedArchive =
     Archive [Entry ''inner.bin'' False (Nested (Archive [Entry ''a.dat'' False (Bytes ''B;1'')]))]"

text \<open>An archive with raw-data entries at three depths, a nested archive that does not open and a directory.\<close>

definition exampleArchive :: archive where
  "exampleArchive = Archive
     [Entry ''a.DAT'' False (Bytes ''B;1''),
      Entry ''inner.zip'' False
        (Nested (Archive
           [Entry ''dir/b.dat'' False (Bytes ''B;2''),
            Entry ''deep.ZIP'' False (Nested (Archive [Entry ''c.dat'' False (Bytes ''B;3'')]))])),
      Entry ''bad.zip'' False Broken,
      Entry ''d.dat/'' True (Bytes []),
      Entry ''e.dat'' False (Bytes ''B;5'')]"

section \<open>IndexBuilder\<close>

text \<open>
  The files on disk under the output directory, by relative name. A file that is missing
  or is not JSON makes the read raise.
\<close>

datatype artifact = ChunkFile chunkData | ManifestFile manifest | AddressFile addressData

text \<open>
  \<open>manifest.chunks\<close> in a \<open>for ... of\<close> loop, and \<open>chunkData.properties\<close> with an
  array method: a value without the property gives \<open>undefined\<close>, and the loop or the
  method call raises a type error. A chunk and an address file both have \<open>properties\<close>.
\<close>

definition manifestChunks :: "artifact \<Rightarrow> error + chunkEntry list" where
  "manifestChunks a = (case a of ManifestFile m \<Rightarrow> Inr (chunks m) | _ \<Rightarrow> Inl TypeError)"

definition artifactProperties :: "artifact \<Rightarrow> error + jsobj list" where
  "artifactProperties a =
     (case a of ChunkFile cd \<Rightarrow> Inr (chunkProperties cd)
      | AddressFile ad \<Rightarrow> Inr (fileProperties ad)
      | ManifestFile m \<Rightarrow> Inl TypeError)"

text \<open>\<open>(p.a || p.address || '')\<close>, and \<open>toLowerCase\<close> on it, which a number does not have.\<close>

definition propertyAddress :: "jsobj \<Rightarrow> jsval" where
  "propertyAddress p = orVal (orVal (getProp p ''a'') (getProp p ''address'')) (Str [])"

definition lowerAddress :: "jsobj \<Rightarrow> error + string" where
  "lowerAddress p = (case propertyAddress p of Str a \<Rightarrow> Inr (toLowerCase a) | _ \<Rightarrow> Inl TypeError)"

text \<open>
  The index under construction is the object literal \<open>masterIndex\<close>: its own
  properties, one object of year counters per address. Reading \<open>masterIndex[addr]\<close>
  for an address that is not an own property finds what \<open>Object.prototype\<close> has:
  the function \<open>Object\<close> for \<open>constructor\<close>, the prototype itself for
  \<open>__proto__\<close>. Both are truthy, so no own property is created for such an address and
  its counter is kept on the inherited object: \<open>objectProps\<close> are the counters that end
  up on \<open>Object\<close>, \<open>protoProps\<close> those on \<open>Object.prototype\<close>. A counter on the
  prototype is inherited by every object: it is seen as the start value of a year counter
  that is not yet an own property, and as a number under the address that spells the year.
  Years are numbers and are used as keys in their decimal form.
\<close>

record indexState =
  ownIndex :: "(string \<times> (nat \<times> nat) list) list"
  objectProps :: "(nat \<times> nat) list"
  protoProps :: "(nat \<times> nat) list"

datatype indexRef = RUndefined | ROwn "(nat \<times> nat) list" | RObject | RProto | RNumber nat

fun assocSet :: "'k \<Rightarrow> 'v \<Rightarrow> ('k \<times> 'v) list \<Rightarrow> ('k \<times> 'v) list" where
  "assocSet k v [] = [(k, v)]"
| "assocSet k v ((k', v') # r) = (if k' = k then (k, v) # r else (k', v') # assocSet k v r)"

definition yearKey :: "string \<Rightarrow> nat option" where
  "yearKey k = (if k \<noteq> [] \<and> list_all isDigit k \<and> showNat (digitsVal k) = k
                then Some (digitsVal k) else None)"

definition lookupIndex :: "indexState \<Rightarrow> string \<Rightarrow> indexRef" where
  "lookupIndex st addr =
     (case map_of (ownIndex st) addr of
        Some m \<Rightarrow> ROwn m
      | None \<Rightarrow>
          if addr = ''__proto__'' then RProto
          else if addr = ''constructor'' then RObject
          else (case yearKey addr of
                  None \<Rightarrow> RUndefined
                | Some y \<Rightarrow> (case map_of (protoProps st) y of
                               None \<Rightarrow> RUndefined | Some c \<Rightarrow> RNumber c)))"

definition truthyRef :: "indexRef \<Rightarrow> bool" where
  "truthyRef r = (case r of RUndefined \<Rightarrow> False | RNumber c \<Rightarrow> c \<noteq> 0 | _ \<Rightarrow> True)"

text \<open>The value read for a year: an own counter first, then an inherited one, then nothing.\<close>

definition counter :: "(nat \<times> nat) list \<Rightarrow> (nat \<times> nat) list \<Rightarrow> nat \<Rightarrow> nat" where
  "counter own inherited yr =
     (case map_of own yr of
        Some c \<Rightarrow> c
      | None \<Rightarrow> (case map_of inherited yr of Some c \<Rightarrow> c | None \<Rightarrow> 0))"

text \<open>
  The body of the \<open>forEach\<close> over a chunk's records. The code runs in strict mode (a
  class body), where setting a property on a number raises a type error.
\<close>

definition indexProperty :: "nat \<Rightarrow> indexState \<Rightarrow> jsobj \<Rightarrow> error + indexState" where
  "indexProperty yr st p =
     (case lowerAddress p of
        Inl e \<Rightarrow> Inl e
      | Inr addr \<Rightarrow>
          if addr = [] then Inr st
          else
            let st1 = (if truthyRef (lookupIndex st addr) then st
                       else st\<lparr>ownIndex := assocSet addr [] (ownIndex st)\<rparr>)
            in (case lookupIndex st1 addr of
                  ROwn m \<Rightarrow>
                    Inr (st1\<lparr>ownIndex :=
                           assocSet addr (assocSet yr (Suc (counter m (protoProps st1) yr)) m)
                             (ownIndex st1)\<rparr>)
                | RProto \<Rightarrow>
                    Inr (st1\<lparr>protoProps :=
                           assocSet yr (Suc (counter (protoProps st1) [] yr)) (protoProps st1)\<rparr>)
                | RObject \<Rightarrow>
                    Inr (st1\<lparr>objectProps :=
                           assocSet yr (Suc (counter (objectProps st1) (protoProps st1) yr))
                             (objectProps st1)\<rparr>)
                | RNumber c \<Rightarrow> Inl TypeError
                | RUndefined \<Rightarrow> Inl TypeError))"

text \<open>
  A failure stops the rest of the year and is logged; what was counted before it stays in
  the index.
\<close>

fun indexProperties :: "nat \<Rightarrow> indexState \<Rightarrow> jsobj list \<Rightarrow> indexState \<times> error option" where
  "indexProperties yr st [] = (st, None)"
| "indexProperties yr st (p # ps) =
     (case indexProperty yr st p of
        Inl e \<Rightarrow> (st, Some e)
      | Inr st' \<Rightarrow> indexProperties yr st' ps)"

definition readFile :: "(string \<Rightarrow> artifact option) \<Rightarrow> string \<Rightarrow> error + artifact" where
  "readFile disk name = (case disk name of None \<Rightarrow> Inl ReadError | Some a \<Rightarrow> Inr a)"

fun indexChunks :: "(string \<Rightarrow> artifact option) \<Rightarrow> nat \<Rightarrow> indexState \<Rightarrow> chunkEntry list
                      \<Rightarrow> indexState \<times> error option" where
  "indexChunks disk yr st [] = (st, None)"
| "indexChunks disk yr st (c # cs) =
     (case readFile disk (showNat yr @ ''/'' @ filename c) of
        Inl e \<Rightarrow> (st, Some e)
      | Inr a \<Rightarrow>
          (case artifactProperties a of
             Inl e \<Rightarrow> (st, Some e)
           | Inr ps \<Rightarrow>
               (case indexProperties yr st ps of
                  (st', Some e) \<Rightarrow> (st', Some e)
                | (st', None) \<Rightarrow> indexChunks disk yr st' cs)))"

definition indexYear :: "(string \<Rightarrow> artifact option) \<Rightarrow> indexState \<Rightarrow> nat \<Rightarrow> indexState" where
  "indexYear disk st yr =
     (case readFile disk (showNat yr @ ''/manifest.json'') of
        Inl e \<Rightarrow> st
      | Inr a \<Rightarrow>
          (case manifestChunks a of
             Inl e \<Rightarrow> st
           | Inr cs \<Rightarrow> fst (indexChunks disk yr st cs)))"

text \<open>
  The master index as it is written: the own properties of \<open>masterIndex\<close>. The years
  are the processed years in the order they were added, without repetition.
\<close>

definition createOptimizedIndices ::
  "(string \<Rightarrow> artifact option) \<Rightarrow> nat list \<Rightarrow> (string \<times> (nat \<times> nat) list) list" where
  "createOptimizedIndices disk years =
     ownIndex (foldl (indexYear disk) \<lparr>ownIndex = [], objectProps = [], protoProps = []\<rparr> years)"

text \<open>The number of records of an address in the chunks a year's manifest lists.\<close>

definition chunkAddresses :: "(string \<Rightarrow> artifact option) \<Rightarrow> nat \<Rightarrow> chunkEntry \<Rightarrow> string list" where
  "chunkAddresses disk yr c =
     (case disk (showNat yr @ ''/'' @ filename c) of
        Some (ChunkFile cd) \<Rightarrow>
          concat (map (\<lambda>p. case lowerAddress p of Inr a \<Rightarrow> [a] | Inl e \<Rightarrow> []) (chunkProperties cd))
      | _ \<Rightarrow> [])"

definition yearAddresses :: "(string \<Rightarrow> artifact option) \<Rightarrow> nat \<Rightarrow> string list" where
  "yearAddresses disk yr =
     (case disk (showNat yr @ ''/manifest.json'') of
        Some (ManifestFile m) \<Rightarrow> concat (map (chunkAddresses disk yr) (chunks m))
      | _ \<Rightarrow> [])"

text \<open>
  A record whose street is named CONSTRUCTOR and that has no house number, and the chunk
  and manifest ChunkWriter writes for the year 2020 from it and the sample record.
\<close>

definition rawsonRecord :: property where
  "rawsonRecord = sampleRecord ''103'' ''RAWSON ST'' (Fin 260000) 2020"

definition constructorRecord :: property where
  "constructorRecord = sampleRecord [] ''CONSTRUCTOR'' (Fin 500000) 2020"

definition constructorDisk :: "string \<Rightarrow> artifact option" where
  "constructorDisk =
     map_of
       [(''2020/manifest.json'',
         ManifestFile \<lparr>manifestYear = 2020, totalProperties = 2,
           chunks = [\<lparr>filename = ''properties-2020-000.json'', count = 2\<rparr>]\<rparr>),
        (''2020/properties-2020-000.json'',
         ChunkFile \<lparr>chunkYear = 2020, chunkId = ''000'', chunkCount = 2,
           chunkProperties = map compressProperty [rawsonRecord, constructorRecord]\<rparr>)]"

text \<open>The files a call of ChunkWriter leaves on disk.\<close>

definition writtenDisk :: "chunkResult \<Rightarrow> string \<Rightarrow> artifact option" where
  "writtenDisk res =
     map_of
       ((fst (manifestFile res), ManifestFile (snd (manifestFile res)))
        # map (\<lambda>(name, cd). (name, ChunkFile cd)) (chunkFiles res)
        @ (case addressFiles res of
             Inl e \<Rightarrow> []
           | Inr written \<Rightarrow> map (\<lambda>(name, ad). (name, AddressFile ad)) (rev written)))"

section \<open>QueryService\<close>

text \<open>
  The remote repository answers a request for a named file with a failure of the
  request, or with a status code and a body; the body is \<open>None\<close> when it is not JSON.
  A body that is JSON has the shape the batch pipeline writes: the master index under its
  one name, a chunk, a manifest or an address file under the other names. The year keys
  of the index are numbers in decimal form.
\<close>

datatype 'a response = RequestError | Response nat "'a option"

type_synonym masterIndex = "(string \<times> (nat \<times> nat) list) list"

record remote =
  indexFile :: "masterIndex response"
  files :: "string \<Rightarrow> artifact response"

text \<open>
  The cache is one map with keys \<open>github_<file>\<close>, \<open>search_<query>\<close>,
  \<open>property_<address>\<close> and \<open>price_<filters>\<close>. The prefixes keep the four kinds of
  key apart, so it is kept as one map per kind, the fetched master index in a field of
  its own. The key of a price search is built from the two bounds, the suburb (\<open>all\<close>
  when absent) and the year (\<open>all\<close> when absent); it is kept as that tuple. Entries
  are removed by timers after their lifetime: the model describes one call at an instant,
  on the cache as it is then.
\<close>

record cache =
  githubIndex :: "masterIndex option"
  github :: "string \<Rightarrow> artifact option"
  searchCache :: "string \<Rightarrow> jsobj list option"
  propertyCache :: "string \<Rightarrow> jsobj list option"
  priceCache :: "number \<times> number \<times> string \<times> nat option \<Rightarrow> jsobj list option"

text \<open>
  \<open>fetchGitHubFile\<close> for one file: the cache entry of the file and the answer of the
  remote give the result (\<open>None\<close> is \<open>null\<close>) and the cache entry afterwards.
\<close>

definition fetchGitHubFile :: "'a option \<Rightarrow> 'a response \<Rightarrow> 'a option \<times> 'a option" where
  "fetchGitHubFile cached resp =
     (case cached of
        Some v \<Rightarrow> (Some v, cached)
      | None \<Rightarrow>
          (case resp of
             RequestError \<Rightarrow> (None, None)
           | Response statusCode body \<Rightarrow>
               if statusCode \<noteq> 200 then (None, None)
               else (case body of
                       None \<Rightarrow> (None, None)
                     | Some parsed \<Rightarrow> (Some parsed, Some parsed))))"

definition fetchIndex :: "remote \<Rightarrow> cache \<Rightarrow> masterIndex option \<times> cache" where
  "fetchIndex r c =
     (let (res, entry) = fetchGitHubFile (githubIndex c) (indexFile r)
      in (res, c\<lparr>githubIndex := entry\<rparr>))"

definition fetchFile :: "remote \<Rightarrow> cache \<Rightarrow> string \<Rightarrow> artifact option \<times> cache" where
  "fetchFile r c name =
     (let (res, entry) = fetchGitHubFile (github c name) (files r name)
      in (res, c\<lparr>github := (github c)(name := entry)\<rparr>))"

subsection \<open>Records of one address and year\<close>

text \<open>The filter on the address; it raises where \<open>toLowerCase\<close> meets a number.\<close>

fun matchingProperties :: "string \<Rightarrow> jsobj list \<Rightarrow> error + jsobj list" where
  "matchingProperties addr [] = Inr []"
| "matchingProperties addr (p # ps) =
     (case lowerAddress p of
        Inl e \<Rightarrow> Inl e
      | Inr a \<Rightarrow>
          (case matchingProperties addr ps of
             Inl e \<Rightarrow> Inl e
           | Inr ms \<Rightarrow> Inr (if a = toLowerCase addr then p # ms else ms)))"

definition addressFilePath :: "string \<Rightarrow> string \<Rightarrow> string" where
  "addressFilePath yr addr = yr @ ''/addresses/'' @ hashAddress addr @ ''.json''"

text \<open>The fallback over the first chunks of the year. Any error ends the call with no records.\<close>

fun scanChunks :: "remote \<Rightarrow> cache \<Rightarrow> string \<Rightarrow> string \<Rightarrow> chunkEntry list
                     \<Rightarrow> jsobj list \<times> cache" where
  "scanChunks r c addr yr [] = ([], c)"
| "scanChunks r c addr yr (ch # chs) =
     (let (chunkData, c1) = fetchFile r c (yr @ ''/'' @ filename ch) in
      case chunkData of
        None \<Rightarrow> scanChunks r c1 addr yr chs
      | Some a \<Rightarrow>
          (case artifactProperties a of
             Inl e \<Rightarrow> ([], c1)
           | Inr ps \<Rightarrow>
               (case matchingProperties addr ps of
                  Inl e \<Rightarrow> ([], c1)
                | Inr ms \<Rightarrow>
                    if ms \<noteq> [] then (map decompressProperty ms, c1)
                    else scanChunks r c1 addr yr chs)))"

definition loadPropertiesForAddressYear ::
  "remote \<Rightarrow> cache \<Rightarrow> string \<Rightarrow> string \<Rightarrow> jsobj list \<times> cache" where
  "loadPropertiesForAddressYear r c addr yr =
     (let (addressData, c1) = fetchFile r c (addressFilePath yr addr) in
      case addressData of
        Some a \<Rightarrow>
          (case artifactProperties a of
             Inl e \<Rightarrow> ([], c1)
           | Inr ps \<Rightarrow>
               (case matchingProperties addr ps of
                  Inl e \<Rightarrow> ([], c1)
                | Inr ms \<Rightarrow> (map decompressProperty ms, c1)))
      | None \<Rightarrow>
          (let (manifest, c2) = fetchFile r c1 (yr @ ''/manifest.json'') in
           case manifest of
             None \<Rightarrow> ([], c2)
           | Some m \<Rightarrow>
               (case manifestChunks m of
                  Inl e \<Rightarrow> ([], c2)
                | Inr cs \<Rightarrow> scanChunks r c2 addr yr (take 3 cs))))"

subsection \<open>Sorting with a comparator\<close>

text \<open>
  The sort of the runtime is stable. \<open>le a b\<close> says that the comparator's value on
  \<open>a\<close> and \<open>b\<close> is not positive, a value that is not a number counting as zero.
  When the comparator is inconsistent (it can be when a date or a price is not a
  number) the runtime may order the list in any way; the model then gives the order of a
  stable insertion sort.
\<close>

fun insertBy :: "('a \<Rightarrow> 'a \<Rightarrow> bool) \<Rightarrow> 'a \<Rightarrow> 'a list \<Rightarrow> 'a list" where
  "insertBy le x [] = [x]"
| "insertBy le x (y # ys) = (if le x y then x # y # ys else y # insertBy le x ys)"

definition sortBy :: "('a \<Rightarrow> 'a \<Rightarrow> bool) \<Rightarrow> 'a list \<Rightarrow> 'a list" where
  "sortBy le xs = foldr (insertBy le) xs []"

text \<open>
  \<open>new Date(v)\<close> as a time value, \<open>None\<close> for an invalid date. The parse of a string
  is the host's and is the parameter \<open>parseDate\<close>; a number is a time value when it
  is in range, rounded towards zero.
\<close>

definition timeClip :: "number \<Rightarrow> int option" where
  "timeClip n =
     (case n of
        Fin r \<Rightarrow> if \<bar>r\<bar> \<le> 8640000000000000
                 then Some (if 0 \<le> r then \<lfloor>r\<rfloor> else \<lceil>r\<rceil>) else None
      | _ \<Rightarrow> None)"

definition dateOf :: "(string \<Rightarrow> int option) \<Rightarrow> jsval \<Rightarrow> int option" where
  "dateOf parseDate v =
     (case v of
        Str s \<Rightarrow> parseDate s
      | Num n \<Rightarrow> timeClip n
      | Null \<Rightarrow> Some 0
      | Undefined \<Rightarrow> None)"

text \<open>\<open>new Date(b.saleDate) - new Date(a.saleDate)\<close> is not positive, or is not a number.\<close>

definition dateLe :: "(string \<Rightarrow> int option) \<Rightarrow> jsobj \<Rightarrow> jsobj \<Rightarrow> bool" where
  "dateLe parseDate a b =
     (case (dateOf parseDate (getProp b ''saleDate''), dateOf parseDate (getProp a ''saleDate'')) of
        (Some tb, Some ta) \<Rightarrow> tb - ta \<le> 0
      | _ \<Rightarrow> True)"

subsection \<open>Search by address\<close>

text \<open>\<open>Object.keys(masterIndex[address])\<close>: the years, which are array indices, ascending.\<close>

definition yearKeys :: "(nat \<times> nat) list \<Rightarrow> string list" where
  "yearKeys yc = objectKeys (map (\<lambda>(y, n). (showNat y, n)) yc)"

definition indexYears :: "masterIndex \<Rightarrow> string \<Rightarrow> string list" where
  "indexYears idx addr = (case map_of idx addr of None \<Rightarrow> [] | Some yc \<Rightarrow> yearKeys yc)"

fun collectYears :: "remote \<Rightarrow> cache \<Rightarrow> nat \<Rightarrow> string \<Rightarrow> string list \<Rightarrow> jsobj list
                       \<Rightarrow> jsobj list \<times> cache" where
  "collectYears r c limit addr [] results = (results, c)"
| "collectYears r c limit addr (yr # yrs) results =
     (let (properties, c1) = loadPropertiesForAddressYear r c addr yr;
          results1 = results @ properties
      in if limit * 2 \<le> length results1 then (results1, c1)
         else collectYears r c1 limit addr yrs results1)"

fun collectAddresses :: "remote \<Rightarrow> cache \<Rightarrow> masterIndex \<Rightarrow> nat \<Rightarrow> string list \<Rightarrow> jsobj list
                           \<Rightarrow> jsobj list \<times> cache" where
  "collectAddresses r c idx limit [] results = (results, c)"
| "collectAddresses r c idx limit (addr # addrs) results =
     (let (results1, c1) = collectYears r c limit addr (take 3 (indexYears idx addr)) results
      in if limit * 2 \<le> length results1 then (results1, c1)
         else collectAddresses r c1 idx limit addrs results1)"

definition matchingAddresses :: "masterIndex \<Rightarrow> string \<Rightarrow> string list" where
  "matchingAddresses idx query =
     take 20 (filter (\<lambda>addr. strIncludes addr (toLowerCase query)) (objectKeys idx))"

text \<open>
  The whole search. A missing master index raises inside the \<open>try\<close> block and the
  handler returns the empty list.
\<close>

definition searchAddressFromGitHub ::
  "(string \<Rightarrow> int option) \<Rightarrow> remote \<Rightarrow> cache \<Rightarrow> string \<Rightarrow> nat \<Rightarrow> jsobj list \<times> cache" where
  "searchAddressFromGitHub parseDate r c query limit =
     (case searchCache c (toLowerCase query) of
        Some cached \<Rightarrow> (take limit cached, c)
      | None \<Rightarrow>
          (let (masterIndex, c1) = fetchIndex r c in
           case masterIndex of
             None \<Rightarrow> ([], c1)
           | Some idx \<Rightarrow>
               (let (results, c2) =
                      collectAddresses r c1 idx limit (matchingAddresses idx query) [];
                    sortedResults = take limit (sortBy (dateLe parseDate) results)
                in (sortedResults,
                    c2\<lparr>searchCache := (searchCache c2)(toLowerCase query := Some sortedResults)\<rparr>))))"

subsection \<open>Lookup of one address\<close>

fun loadYears :: "remote \<Rightarrow> cache \<Rightarrow> string \<Rightarrow> string list \<Rightarrow> jsobj list \<Rightarrow> jsobj list \<times> cache" where
  "loadYears r c addr [] results = (results, c)"
| "loadYears r c addr (yr # yrs) results =
     (let (properties, c1) = loadPropertiesForAddressYear r c addr yr
      in loadYears r c1 addr yrs (results @ properties))"

text \<open>
  Reading the index at \<open>null\<close> raises and the handler returns the empty list. An address
  that is not in the index ends the call, unless it is an inherited key: what is found
  then is truthy and has no keys, and the empty result is cached.
\<close>

definition getPropertyFromGitHub :: "remote \<Rightarrow> cache \<Rightarrow> string \<Rightarrow> jsobj list \<times> cache" where
  "getPropertyFromGitHub r c addr =
     (case propertyCache c (toLowerCase addr) of
        Some cached \<Rightarrow> (cached, c)
      | None \<Rightarrow>
          (let (masterIndex, c1) = fetchIndex r c in
           case masterIndex of
             None \<Rightarrow> ([], c1)
           | Some idx \<Rightarrow>
               if map_of idx (toLowerCase addr) = None \<and> \<not> inheritedKey (toLowerCase addr)
               then ([], c1)
               else
                 (let (results, c2) =
                        loadYears r c1 (toLowerCase addr) (indexYears idx (toLowerCase addr)) []
                  in (results,
                      c2\<lparr>propertyCache := (propertyCache c2)(toLowerCase addr := Some results)\<rparr>))))"

subsection \<open>Available years\<close>

definition getAvailableYearsFromGitHub :: "remote \<Rightarrow> cache \<Rightarrow> nat list \<times> cache" where
  "getAvailableYearsFromGitHub r c =
     (let (masterIndex, c1) = fetchIndex r c in
      case masterIndex of
        None \<Rightarrow> ([], c1)
      | Some idx \<Rightarrow> (rev (sort (remdups (concat (map (\<lambda>(addr, yc). map fst yc) idx)))), c1))"

subsection \<open>Search by price\<close>

text \<open>
  Comparisons and subtraction turn their operands into numbers. How a string becomes a
  number is the parameter \<open>toNum\<close>.
\<close>

definition toNumber :: "(string \<Rightarrow> number) \<Rightarrow> jsval \<Rightarrow> number" where
  "toNumber toNum v =
     (case v of Num n \<Rightarrow> n | Str s \<Rightarrow> toNum s | Null \<Rightarrow> Fin 0 | Undefined \<Rightarrow> NaN)"

definition numLe :: "number \<Rightarrow> number \<Rightarrow> bool" where
  "numLe a b =
     (case (a, b) of
        (NaN, _) \<Rightarrow> False
      | (_, NaN) \<Rightarrow> False
      | (NegInf, _) \<Rightarrow> True
      | (_, PosInf) \<Rightarrow> True
      | (Fin x, Fin y) \<Rightarrow> x \<le> y
      | _ \<Rightarrow> False)"

text \<open>\<open>b - a\<close> is not positive, or is not a number.\<close>

definition diffLe :: "number \<Rightarrow> number \<Rightarrow> bool" where
  "diffLe b a =
     (case (b, a) of
        (NaN, _) \<Rightarrow> True
      | (_, NaN) \<Rightarrow> True
      | (PosInf, PosInf) \<Rightarrow> True
      | (NegInf, NegInf) \<Rightarrow> True
      | (PosInf, _) \<Rightarrow> False
      | (_, NegInf) \<Rightarrow> False
      | (NegInf, _) \<Rightarrow> True
      | (_, PosInf) \<Rightarrow> True
      | (Fin x, Fin y) \<Rightarrow> x - y \<le> 0)"

definition priceLe :: "(string \<Rightarrow> number) \<Rightarrow> jsobj \<Rightarrow> jsobj \<Rightarrow> bool" where
  "priceLe toNum a b =
     diffLe (toNumber toNum (getProp b ''salePrice'')) (toNumber toNum (getProp a ''salePrice''))"

text \<open>The filter of a chunk's records by price and suburb.\<close>

definition priceMatch ::
  "(string \<Rightarrow> number) \<Rightarrow> number \<Rightarrow> number \<Rightarrow> string option \<Rightarrow> jsobj \<Rightarrow> error + bool" where
  "priceMatch toNum minPrice maxPrice sub p =
     (let price = orVal (orVal (getProp p ''$'') (getProp p ''salePrice'')) (Num (Fin 0));
          propSuburb = orVal (orVal (getProp p ''s'') (getProp p ''suburb'')) (Str []);
          inRange = (numLe minPrice (toNumber toNum price) \<and> numLe (toNumber toNum price) maxPrice)
      in case sub of
           None \<Rightarrow> Inr inRange
         | Some s \<Rightarrow>
             if s = [] \<or> \<not> inRange then Inr inRange
             else (case propSuburb of
                     Str ps \<Rightarrow> Inr (strIncludes (toLowerCase ps) (toLowerCase s))
                   | _ \<Rightarrow> Inl TypeError))"

fun priceMatches ::
  "(string \<Rightarrow> number) \<Rightarrow> number \<Rightarrow> number \<Rightarrow> string option \<Rightarrow> jsobj list \<Rightarrow> error + jsobj list" where
  "priceMatches toNum minPrice maxPrice sub [] = Inr []"
| "priceMatches toNum minPrice maxPrice sub (p # ps) =
     (case priceMatch toNum minPrice maxPrice sub p of
        Inl e \<Rightarrow> Inl e
      | Inr m \<Rightarrow>
          (case priceMatches toNum minPrice maxPrice sub ps of
             Inl e \<Rightarrow> Inl e
           | Inr ms \<Rightarrow> Inr (if m then p # ms else ms)))"

fun priceChunks ::
  "(string \<Rightarrow> number) \<Rightarrow> remote \<Rightarrow> cache \<Rightarrow> string \<Rightarrow> number \<Rightarrow> number \<Rightarrow> string option \<Rightarrow> nat
     \<Rightarrow> chunkEntry list \<Rightarrow> jsobj list \<Rightarrow> jsobj list \<times> cache" where
  "priceChunks toNum r c yr minPrice maxPrice sub limit [] results = (results, c)"
| "priceChunks toNum r c yr minPrice maxPrice sub limit (ch # chs) results =
     (let (chunkData, c1) = fetchFile r c (yr @ ''/'' @ filename ch) in
      case chunkData of
        None \<Rightarrow> priceChunks toNum r c1 yr minPrice maxPrice sub limit chs results
      | Some a \<Rightarrow>
          (case artifactProperties a of
             Inl e \<Rightarrow> ([], c1)
           | Inr ps \<Rightarrow>
               (case priceMatches toNum minPrice maxPrice sub ps of
                  Inl e \<Rightarrow> ([], c1)
                | Inr ms \<Rightarrow>
                    (let results1 = results @ map decompressProperty ms
                     in if limit \<le> length results1 then (results1, c1)
                        else priceChunks toNum r c1 yr minPrice maxPrice sub limit chs results1))))"

definition searchYearByPrice ::
  "(string \<Rightarrow> number) \<Rightarrow> remote \<Rightarrow> cache \<Rightarrow> string \<Rightarrow> number \<Rightarrow> number \<Rightarrow> string option \<Rightarrow> nat
     \<Rightarrow> jsobj list \<times> cache" where
  "searchYearByPrice toNum r c yr minPrice maxPrice sub limit =
     (let (manifest, c1) = fetchFile r c (yr @ ''/manifest.json'') in
      case manifest of
        None \<Rightarrow> ([], c1)
      | Some m \<Rightarrow>
          (case manifestChunks m of
             Inl e \<Rightarrow> ([], c1)
           | Inr cs \<Rightarrow> priceChunks toNum r c1 yr minPrice maxPrice sub limit (take 5 cs) []))"

fun priceYears ::
  "(string \<Rightarrow> number) \<Rightarrow> remote \<Rightarrow> cache \<Rightarrow> number \<Rightarrow> number \<Rightarrow> string option \<Rightarrow> nat
     \<Rightarrow> string list \<Rightarrow> jsobj list \<Rightarrow> jsobj list \<times> cache" where
  "priceYears toNum r c minPrice maxPrice sub limit [] results = (results, c)"
| "priceYears toNum r c minPrice maxPrice sub limit (yr # yrs) results =
     (let (yearResults, c1) = searchYearByPrice toNum r c yr minPrice maxPrice sub (limit * 2);
          results1 = results @ yearResults
      in if limit * 2 \<le> length results1 then (results1, c1)
         else priceYears toNum r c1 minPrice maxPrice sub limit yrs results1)"

text \<open>The year of the request is absent, or a number; 0 counts as absent.\<close>

definition priceKey ::
  "number \<Rightarrow> number \<Rightarrow> string option \<Rightarrow> nat option \<Rightarrow> number \<times> number \<times> string \<times> nat option" where
  "priceKey minPrice maxPrice sub yr =
     (minPrice, maxPrice,
      (case sub of None \<Rightarrow> ''all'' | Some s \<Rightarrow> orStr s ''all''),
      (case yr of None \<Rightarrow> None | Some y \<Rightarrow> if y = 0 then None else Some y))"

definition searchPriceFromGitHub ::
  "(string \<Rightarrow> number) \<Rightarrow> remote \<Rightarrow> cache \<Rightarrow> number \<Rightarrow> number \<Rightarrow> string option \<Rightarrow> nat option \<Rightarrow> nat
     \<Rightarrow> jsobj list \<times> cache" where
  "searchPriceFromGitHub toNum r c minPrice maxPrice sub yr limit =
     (case priceCache c (priceKey minPrice maxPrice sub yr) of
        Some cached \<Rightarrow> (take limit cached, c)
      | None \<Rightarrow>
          (let (years, c1) =
                 (case yr of
                    None \<Rightarrow> (\<lambda>(ys, c'). (map showNat ys, c')) (getAvailableYearsFromGitHub r c)
                  | Some y \<Rightarrow>
                      if y = 0
                      then (\<lambda>(ys, c'). (map showNat ys, c')) (getAvailableYearsFromGitHub r c)
                      else ([showNat y], c));
               (results, c2) = priceYears toNum r c1 minPrice maxPrice sub limit (take 3 years) [];
               sortedResults = take limit (sortBy (priceLe toNum) results)
           in (sortedResults,
               c2\<lparr>priceCache :=
                    (priceCache c2)(priceKey minPrice maxPrice sub yr := Some sortedResults)\<rparr>)))"

subsection \<open>Absent artifacts\<close>

text \<open>
  A request fails when it errors, when the status is not 200 or when the body is not
  JSON. The artifacts are absent when every request fails; a cache holds no artifact when
  it has no entry for any file.
\<close>

definition failed :: "'a response \<Rightarrow> bool" where
  "failed resp =
     (case resp of RequestError \<Rightarrow> True
      | Response statusCode body \<Rightarrow> statusCode \<noteq> 200 \<or> body = None)"

definition absent :: "remote \<Rightarrow> bool" where
  "absent r = (failed (indexFile r) \<and> (\<forall>name. failed (files r name)))"

definition noArtifacts :: "cache \<Rightarrow> bool" where
  "noArtifacts c = (githubIndex c = None \<and> (\<forall>name. github c name = None))"

definition emptyCache :: cache where
  "emptyCache =
     \<lparr> githubIndex = None, github = (\<lambda>name. None), searchCache = (\<lambda>q. None),
       propertyCache = (\<lambda>a. None), priceCache = (\<lambda>k. None) \<rparr>"

definition absentRemote :: remote where
  "absentRemote = \<lparr> indexFile = RequestError, files = (\<lambda>name. Response 404 None) \<rparr>"

subsection \<open>A repository with four years of one address\<close>

text \<open>
  One address sold once in each of the years 2018 to 2021. The index lists the newest
  year first. Each year has a manifest with one chunk, and there are no address files,
  as for an address with a single sale a year.
\<close>

definition saleIn :: "nat \<Rightarrow> jsobj" where
  "saleIn y =
     compressProperty
       ((sampleRecord ''103'' ''RAWSON ST'' (Fin 260000) y)
          \<lparr>settlementDate := showNat y @ ''0615'', saleDate := Some (showNat y @ ''-06-15'')\<rparr>)"

definition fourYearIndex :: masterIndex where
  "fourYearIndex = [(''103 rawson st'', [(2021, 1), (2020, 1), (2019, 1), (2018, 1)])]"

definition fourYearFiles :: "(string \<times> artifact) list" where
  "fourYearFiles =
     concat (map (\<lambda>y.
        [(showNat y @ ''/manifest.json'',
          ManifestFile \<lparr>manifestYear = y, totalProperties = 1,
            chunks = [\<lparr>filename = ''properties-'' @ showNat y @ ''-000.json'', count = 1\<rparr>]\<rparr>),
         (showNat y @ ''/properties-'' @ showNat y @ ''-000.json'',
          ChunkFile \<lparr>chunkYear = y, chunkId = ''000'', chunkCount = 1,
            chunkProperties = [saleIn y]\<rparr>)])
       [2018, 2019, 2020, 2021])"

definition fourYearRemote :: remote where
  "fourYearRemote =
     \<lparr> indexFile = Response 200 (Some fourYearIndex),
       files = (\<lambda>name. case map_of fourYearFiles name of
                          None \<Rightarrow> Response 404 None
                        | Some a \<Rightarrow> Response 200 (Some a)) \<rparr>"

subsection \<open>An address of six characters\<close>

definition shortRecord :: property where
  "shortRecord = sampleRecord ''1'' ''A ST'' (Fin 260000) 2020"

section \<open>Properties of the record parser\<close>

lemmas parseFloat_defs =
  parseFloat_def trimStart_def isSpace_def code_def unsignedLiteral_def isDigit_def
  digitsVal_def digitVal_def exponentPart_def orZero_def truthyNum_def Let_def
  decimalToDouble_def nearestDouble_def binaryExponent_def pow2_def roundDiv_def
  floorLog2.simps

lemma split_nonempty: "split d s \<noteq> []"
  by (induction s) (auto split: list.splits)

lemma split_append_sep: "d \<notin> set a \<Longrightarrow> split d (a @ d # r) = a # split d r"
  by (induction a) (auto split: list.splits)

lemma toUpperCase_empty: "toUpperCase s = [] \<longleftrightarrow> s = []"
  by (cases s) (auto simp: toUpperCase_def toUpperChar_def)

lemma toLowerCase_empty: "toLowerCase s = [] \<longleftrightarrow> s = []"
  by (simp add: toLowerCase_def)

lemma split_sampleWith:
  "CHR '';'' \<notin> set h \<Longrightarrow> CHR '';'' \<notin> set s \<Longrightarrow> CHR '';'' \<notin> set p \<Longrightarrow>
   split CHR '';'' (sampleWith h s p) =
     [''B'', ''001'', ''1667'', ''1'', ''20200106 01:00'', [], [], h,
      s, ''ABERDARE'', ''2325'', ''1011.83'', ''M'', ''20191116'',
      ''20191230'', p, ''R2'', ''R'', ''RESIDENCE'', [], ''AAD'', [],
      ''0'', ''AP807655'', []]"
  by (simp add: sampleWith_def split_append_sep)

lemma split_sampleWithPrice:
  "CHR '';'' \<notin> set p \<Longrightarrow> split CHR '';'' (sampleWithPrice p) =
     [''B'', ''001'', ''1667'', ''1'', ''20200106 01:00'', [], [], ''103'',
      ''RAWSON ST'', ''ABERDARE'', ''2325'', ''1011.83'', ''M'', ''20191116'',
      ''20191230'', p, ''R2'', ''R'', ''RESIDENCE'', [], ''AAD'', [],
      ''0'', ''AP807655'', []]"
  by (simp add: sampleWithPrice_def split_sampleWith)

lemma sample_address:
  "toUpperCase (trim (fullAddress [] ''103'' ''RAWSON ST'')) = ''103 RAWSON ST''"
  by code_simp

lemma sample_suburb: "toUpperCase ''ABERDARE'' = ''ABERDARE''"
  by code_simp

lemma sample_area: "orZero (parseFloat ''1011.83'') = Fin (8900150802660721 / 2 ^ 43)"
  by (simp add: parseFloat_defs)

lemma sample_prices:
  "orZero (parseFloat ''260000'') = Fin 260000"
  "orZero (parseFloat ''1000'') = Fin 1000"
  "orZero (parseFloat ''1001'') = Fin 1001"
  by (simp_all add: parseFloat_defs)

text \<open>Prices next to a bound that round to the bound.\<close>

lemma rounded_prices:
  "orZero (parseFloat ''1000.00000000000001'') = Fin 1000"
  "orZero (parseFloat ''49999999.999999999'') = Fin 50000000"
  by (simp_all add: parseFloat_defs)

lemma sample_date: "formatDate ''20191230'' = Some ''2019-12-30''"
  by code_simp

lemma sample_type: "determinePropertyType ''R'' ''RESIDENCE'' = ''Residence''"
  by code_simp

lemma parse_sampleWith:
  assumes "CHR '';'' \<notin> set h" "CHR '';'' \<notin> set s" "CHR '';'' \<notin> set p"
  shows "parsePropertyLine (sampleWith h s p) yr =
    (if trim (fullAddress [] h s) \<noteq> []
        \<and> numGt (orZero (parseFloat p)) 1000 \<and> numLt (orZero (parseFloat p)) 50000000
     then Some (sampleRecord h s (orZero (parseFloat p)) yr) else None)"
  by (simp add: parsePropertyLine_def split_sampleWith[OF assms] buildProperty_def
      orStr_def sample_suburb sample_area sample_date sample_type sampleRecord_def
      toUpperCase_empty)

lemma parse_sampleWithPrice:
  assumes "CHR '';'' \<notin> set p"
  shows "parsePropertyLine (sampleWithPrice p) yr =
    (if numGt (orZero (parseFloat p)) 1000 \<and> numLt (orZero (parseFloat p)) 50000000 then
     Some \<lparr>recordType = ''B'', districtCode = ''001'', propertyId = ''1667'',
       saleCounter = ''1'', downloadDateTime = ''20200106 01:00'',
       propertyName = [], unitNumber = [], houseNumber = ''103'',
       streetName = ''RAWSON ST'', locality = ''ABERDARE'',
       postcode = ''2325'', area = Fin (8900150802660721 / 2 ^ 43), areaType = ''M'',
       contractDate = ''20191116'', settlementDate = ''20191230'',
       salePrice = orZero (parseFloat p), zoning = ''R2'', natureOfProperty = ''R'',
       primaryPurpose = ''RESIDENCE'', strataLot = [], year = yr,
       address = ''103 RAWSON ST'', suburb = ''ABERDARE'',
       propertyType = ''Residence'', saleDate = Some ''2019-12-30''\<rparr> else None)"
proof -
  have "trim (fullAddress [] ''103'' ''RAWSON ST'') \<noteq> []"
  proof
    assume "trim (fullAddress [] ''103'' ''RAWSON ST'') = []"
    then have "toUpperCase (trim (fullAddress [] ''103'' ''RAWSON ST'')) = []"
      by (simp add: toUpperCase_empty)
    then show False
      by (simp add: sample_address)
  qed
  then show ?thesis
    unfolding sampleWithPrice_def using assms
    by (simp add: parse_sampleWith sampleRecord_def sample_address)
qed

lemma parse_sampleLine:
  "parsePropertyLine sampleLine yr =
     Some \<lparr>recordType = ''B'', districtCode = ''001'', propertyId = ''1667'',
       saleCounter = ''1'', downloadDateTime = ''20200106 01:00'',
       propertyName = [], unitNumber = [], houseNumber = ''103'',
       streetName = ''RAWSON ST'', locality = ''ABERDARE'',
       postcode = ''2325'', area = Fin (8900150802660721 / 2 ^ 43), areaType = ''M'',
       contractDate = ''20191116'', settlementDate = ''20191230'',
       salePrice = Fin 260000, zoning = ''R2'', natureOfProperty = ''R'',
       primaryPurpose = ''RESIDENCE'', strataLot = [], year = yr,
       address = ''103 RAWSON ST'', suburb = ''ABERDARE'',
       propertyType = ''Residence'', saleDate = Some ''2019-12-30''\<rparr>"
  unfolding sampleLine_def
  by (simp add: parse_sampleWithPrice sample_prices numGt_def numLt_def)

lemma shortLine_fields:
  "split CHR '';'' shortLine =
     [''B'', ''001'', ''1667'', ''1'', ''20200106 01:00'', [], [], ''103'',
      ''RAWSON ST'', ''ABERDARE'', ''2325'', ''1011.83'', ''M'', ''20191116'',
      ''20191230'', ''260000'', ''R2'', ''R'', ''RESIDENCE'']"
  by (simp add: shortLine_def)

text \<open>
  Claim C1. For every line and year the parser returns the null result exactly when the
  line has fewer than 20 fields separated by semicolons, or the composed full address
  (unit, house and street, trimmed) is empty, or the suburb (field 9) is empty, or the
  sale price (field 15 read as a double, 0 when it is not a number) is not strictly
  between 1000 and 50,000,000. The result is an option, so the parser returns and never
  raises. The sample record with price 1000 is rejected, with price 1001 it is accepted,
  and a line of 19 fields is rejected. A price that is written above 1000 or below
  50,000,000 and is the bound as a double is rejected too.
\<close>

theorem parsePropertyLine_null_iff:
  "(parsePropertyLine line yr = None) =
     (let f = split CHR '';'' line in
      length f < 20
      \<or> trim (fullAddress (f ! 6) (f ! 7) (f ! 8)) = []
      \<or> f ! 9 = []
      \<or> \<not> (numGt (orZero (parseFloat (f ! 15))) 1000
            \<and> numLt (orZero (parseFloat (f ! 15))) 50000000))
   \<and> parsePropertyLine (sampleWithPrice ''1000'') yr = None
   \<and> parsePropertyLine (sampleWithPrice ''1001'') yr \<noteq> None
   \<and> parsePropertyLine shortLine yr = None
   \<and> parsePropertyLine (sampleWithPrice ''1000.00000000000001'') yr = None
   \<and> parsePropertyLine (sampleWithPrice ''49999999.999999999'') yr = None"
proof -
  have "(parsePropertyLine line yr = None) =
     (let f = split CHR '';'' line in
      length f < 20
      \<or> trim (fullAddress (f ! 6) (f ! 7) (f ! 8)) = []
      \<or> f ! 9 = []
      \<or> \<not> (numGt (orZero (parseFloat (f ! 15))) 1000
            \<and> numLt (orZero (parseFloat (f ! 15))) 50000000))"
    by (auto simp: parsePropertyLine_def Let_def buildProperty_def orStr_def toUpperCase_empty)
  moreover have "parsePropertyLine (sampleWithPrice ''1000'') yr = None"
    by (simp add: parse_sampleWithPrice sample_prices numGt_def numLt_def)
  moreover have "parsePropertyLine (sampleWithPrice ''1001'') yr \<noteq> None"
    by (simp add: parse_sampleWithPrice sample_prices numGt_def numLt_def)
  moreover have "parsePropertyLine shortLine yr = None"
    by (simp add: parsePropertyLine_def shortLine_fields)
  moreover have "parsePropertyLine (sampleWithPrice ''1000.00000000000001'') yr = None"
    by (simp add: parse_sampleWithPrice rounded_prices numGt_def numLt_def)
  moreover have "parsePropertyLine (sampleWithPrice ''49999999.999999999'') yr = None"
    by (simp add: parse_sampleWithPrice rounded_prices numGt_def numLt_def)
  ultimately show ?thesis by blast
qed

theorem parsePropertyLine_null_iff_witness:
  "parsePropertyLine sampleLine 2020 \<noteq> None
   \<and> length (split CHR '';'' sampleLine) = 25
   \<and> parsePropertyLine (sampleWithPrice ''50000000'') 2020 = None"
proof -
  have f: "split CHR '';'' (sampleWithPrice ''50000000'') ! 15 = ''50000000''"
    by (simp add: split_sampleWithPrice)
  have p: "orZero (parseFloat ''50000000'') = Fin 50000000"
    by (simp add: parseFloat_defs)
  have "parsePropertyLine (sampleWithPrice ''50000000'') 2020 = None"
    using parsePropertyLine_null_iff [of "sampleWithPrice ''50000000''" 2020]
    by (simp add: Let_def f p numLt_def)
  moreover have "parsePropertyLine sampleLine 2020 \<noteq> None"
    by (simp add: parse_sampleLine)
  moreover have "length (split CHR '';'' sampleLine) = 25"
    by (simp add: sampleLine_def split_sampleWithPrice)
  ultimately show ?thesis by simp
qed

text \<open>
  Claim C2. For the sample line and the year 2020 the parser returns a record with address
  "103 RAWSON ST", suburb "ABERDARE", sale price 260000, sale date "2019-12-30" (the
  settlement date, field 14, reformatted) and property type "Residence" (the nature flag
  is R).
\<close>

theorem parsePropertyLine_sample:
  "\<exists>r. parsePropertyLine
          ''B;001;1667;1;20200106 01:00;;;103;RAWSON ST;ABERDARE;2325;1011.83;M;20191116;20191230;260000;R2;R;RESIDENCE;;AAD;;0;AP807655;''
          2020 = Some r
     \<and> address r = ''103 RAWSON ST''
     \<and> suburb r = ''ABERDARE''
     \<and> salePrice r = Fin 260000
     \<and> saleDate r = Some ''2019-12-30''
     \<and> propertyType r = ''Residence''
     \<and> settlementDate r = ''20191230''
     \<and> natureOfProperty r = ''R''
     \<and> year r = 2020"
proof -
  have "''B;001;1667;1;20200106 01:00;;;103;RAWSON ST;ABERDARE;2325;1011.83;M;20191116;20191230;260000;R2;R;RESIDENCE;;AAD;;0;AP807655;''
        = sampleLine"
    by (simp add: sampleLine_def sampleWithPrice_def sampleWith_def)
  then show ?thesis
    by (simp add: parse_sampleLine)
qed

section \<open>Properties of the compact encoding\<close>

lemma determinePropertyType_nonempty: "determinePropertyType n p \<noteq> []"
  by (simp add: determinePropertyType_def)

lemma formatDate_Some: "length d = 8 \<Longrightarrow> \<exists>s. formatDate d = Some s \<and> s \<noteq> []"
  by (auto simp: formatDate_def)

lemma numGt_truthy: "numGt x 1000 \<Longrightarrow> truthyNum x"
  by (cases x) (auto simp: numGt_def truthyNum_def)

lemma orVal_or_zero: "orVal (orVal (Num (orZero x)) Undefined) (Num (Fin 0)) = Num (orZero x)"
  by (cases x) (auto simp: orVal_def truthy_def orZero_def truthyNum_def)

lemma parsePropertyLine_Some:
  assumes "parsePropertyLine line yr = Some r"
  shows "r = buildProperty (split CHR '';'' line) yr"
    and "address r \<noteq> []" and "suburb r \<noteq> []"
    and "numGt (salePrice r) 1000" and "numLt (salePrice r) 50000000"
  using assms by (auto simp: parsePropertyLine_def Let_def split: if_splits)

text \<open>The string fields come back as they went in, whatever they hold.\<close>

lemma roundtrip_strings:
  "getProp (decompressProperty (compressProperty r)) ''address'' = Str (address r)"
  "getProp (decompressProperty (compressProperty r)) ''suburb'' = Str (suburb r)"
  "getProp (decompressProperty (compressProperty r)) ''postcode'' = Str (postcode r)"
  "getProp (decompressProperty (compressProperty r)) ''propertyType'' = Str (propertyType r)"
  "getProp (decompressProperty (compressProperty r)) ''districtCode'' = Str (districtCode r)"
  "getProp (decompressProperty (compressProperty r)) ''zoning'' = Str (zoning r)"
  "getProp (decompressProperty (compressProperty r)) ''natureOfProperty''
     = Str (natureOfProperty r)"
  by (simp_all add: decompressProperty_def compressProperty_def getProp_def orVal_def truthy_def)

lemma roundtrip_numbers:
  "getProp (decompressProperty (compressProperty r)) ''salePrice''
     = (if truthyNum (salePrice r) then Num (salePrice r) else Num (Fin 0))"
  "getProp (decompressProperty (compressProperty r)) ''area''
     = (if truthyNum (area r) then Num (area r) else Num (Fin 0))"
  "getProp (decompressProperty (compressProperty r)) ''year'' = Num (Fin (of_nat (year r)))"
  by (simp_all add: decompressProperty_def compressProperty_def getProp_def orVal_def truthy_def
      truthyNum_def)

lemma roundtrip_date:
  "getProp (decompressProperty (compressProperty r)) ''saleDate''
     = (case saleDate r of None \<Rightarrow> Str [] | Some d \<Rightarrow> Str d)"
  by (simp add: decompressProperty_def compressProperty_def getProp_def orVal_def truthy_def
      dateVal_def split: option.splits)

text \<open>
  Claim C10. For every record the parser accepts whose settlement date has 8 characters
  (so that the sale date is a string), decompressing the compressed record gives back the
  record's value on each of the eleven fields of the compact encoding: address, suburb,
  postcode, propertyType, salePrice, saleDate, districtCode, area, year, zoning and
  natureOfProperty.
\<close>

theorem decompress_compress_roundtrip:
  assumes "parsePropertyLine line yr = Some r" and "length (settlementDate r) = 8"
  shows "getProp (decompressProperty (compressProperty r)) ''address'' = Str (address r)
    \<and> getProp (decompressProperty (compressProperty r)) ''suburb'' = Str (suburb r)
    \<and> getProp (decompressProperty (compressProperty r)) ''postcode'' = Str (postcode r)
    \<and> getProp (decompressProperty (compressProperty r)) ''propertyType'' = Str (propertyType r)
    \<and> getProp (decompressProperty (compressProperty r)) ''salePrice'' = Num (salePrice r)
    \<and> getProp (decompressProperty (compressProperty r)) ''saleDate'' = dateVal (saleDate r)
    \<and> saleDate r \<noteq> None
    \<and> getProp (decompressProperty (compressProperty r)) ''districtCode'' = Str (districtCode r)
    \<and> getProp (decompressProperty (compressProperty r)) ''area'' = Num (area r)
    \<and> getProp (decompressProperty (compressProperty r)) ''year'' = Num (Fin (of_nat (year r)))
    \<and> getProp (decompressProperty (compressProperty r)) ''zoning'' = Str (zoning r)
    \<and> getProp (decompressProperty (compressProperty r)) ''natureOfProperty''
        = Str (natureOfProperty r)"
proof -
  note facts = parsePropertyLine_Some [OF assms(1)]
  have price: "truthyNum (salePrice r)"
    using facts(4) by (rule numGt_truthy)
  have "area r = orZero (parseFloat (split CHR '';'' line ! 11))"
    by (subst facts(1)) (simp add: buildProperty_def)
  then have area: "(if truthyNum (area r) then Num (area r) else Num (Fin 0)) = Num (area r)"
    by (auto simp: orZero_def)
  have "saleDate r = formatDate (settlementDate r)"
    by (subst (1 2) facts(1)) (simp add: buildProperty_def)
  with formatDate_Some [OF assms(2)] obtain s where date: "saleDate r = Some s"
    by auto
  show ?thesis
    by (simp add: roundtrip_strings roundtrip_numbers roundtrip_date price area date dateVal_def)
qed

theorem decompress_compress_roundtrip_witness:
  "\<exists>r. parsePropertyLine sampleLine 2020 = Some r \<and> length (settlementDate r) = 8
     \<and> getProp (decompressProperty (compressProperty r)) ''address'' = Str ''103 RAWSON ST''
     \<and> getProp (decompressProperty (compressProperty r)) ''salePrice'' = Num (Fin 260000)
     \<and> getProp (decompressProperty (compressProperty r)) ''saleDate'' = Str ''2019-12-30''
     \<and> getProp (decompressProperty (compressProperty r)) ''area'' = Num (Fin (8900150802660721 / 2 ^ 43))
     \<and> getProp (decompressProperty (compressProperty r)) ''year'' = Num (Fin 2020)"
proof -
  obtain r where r: "parsePropertyLine sampleLine 2020 = Some r"
    by (simp add: parse_sampleLine)
  then have v: "settlementDate r = ''20191230''" "address r = ''103 RAWSON ST''"
    "salePrice r = Fin 260000" "saleDate r = Some ''2019-12-30''"
    "area r = Fin (8900150802660721 / 2 ^ 43)" "year r = 2020"
    by (auto simp: parse_sampleLine)
  have len: "length (settlementDate r) = 8"
    by (simp add: v)
  show ?thesis
    using decompress_compress_roundtrip [OF r len] r len
    by (simp add: v dateVal_def)
qed

section \<open>Properties of ChunkWriter\<close>

lemma recordsPerChunkOf_pos: "0 < recordsPerChunkOf c"
  by (simp add: recordsPerChunkOf_def split: option.splits)

lemma chunkLoop_starts:
  "0 < n \<Longrightarrow> chunkLoop yr n props i w = Some (w @ map (writeChunk yr n props) (starts n (length props) i))"
proof (induction n "length props" i arbitrary: w rule: starts.induct)
  case (1 n i)
  show ?case
  proof (cases "i < length props")
    case True
    with 1 show ?thesis
      by (subst chunkLoop.simps, subst starts.simps) simp
  next
    case False
    then show ?thesis
      by (subst chunkLoop.simps, subst starts.simps) simp
  qed
qed

lemma concat_slices:
  "0 < n \<Longrightarrow> concat (map (\<lambda>s. slice xs s (s + n)) (starts n (length xs) i)) = drop i xs"
proof (induction n "length xs" i rule: starts.induct)
  case (1 n i)
  show ?case
  proof (cases "i < length xs")
    case True
    have "take n (drop i xs) @ drop (i + n) xs = drop i xs"
      by (metis add.commute append_take_drop_id drop_drop)
    with True 1 show ?thesis
      by (subst starts.simps) (simp add: slice_def)
  next
    case False
    then show ?thesis
      by (subst starts.simps) simp
  qed
qed




lemma writeChunk_fields:
  "chunkProperties (snd (writeChunk yr n props i)) = map compressProperty (slice props i (i + n))"
  "chunkCount (snd (writeChunk yr n props i)) = length (slice props i (i + n))"
  by (simp_all add: writeChunk_def Let_def)


text \<open>The result of ChunkWriter for a positive chunk size.\<close>

lemma createOptimizedChunks_Some:
  assumes "0 < n"
  shows "createOptimizedChunks collate n yr props =
     Some \<lparr> chunkFiles = map (\<lambda>i. (showNat yr @ ''/'' @ fst (writeChunk yr n (sort_key (\<lambda>p. collate (address p)) props) i),
                                   snd (writeChunk yr n (sort_key (\<lambda>p. collate (address p)) props) i)))
                             (starts n (length props) 0),
            manifestFile = (showNat yr @ ''/manifest.json'',
               \<lparr> manifestYear = yr, totalProperties = length props,
                 chunks = map (\<lambda>i. \<lparr> filename = fst (writeChunk yr n (sort_key (\<lambda>p. collate (address p)) props) i),
                                      count = chunkCount (snd (writeChunk yr n (sort_key (\<lambda>p. collate (address p)) props) i)) \<rparr>)
                            (starts n (length props) 0) \<rparr>),
            addressFiles = createAddressFiles yr (sort_key (\<lambda>p. collate (address p)) props) \<rparr>"
  by (simp add: createOptimizedChunks_def Let_def chunkLoop_starts [OF assms] case_prod_beta o_def)

lemma chunkFiles_concat:
  assumes "0 < n"
  shows "\<exists>res. createOptimizedChunks collate n yr props = Some res
     \<and> concat (map (\<lambda>f. chunkProperties (snd f)) (chunkFiles res))
         = map compressProperty (sort_key (\<lambda>p. collate (address p)) props)"
proof -
  define sorted where "sorted = sort_key (\<lambda>p. collate (address p)) props"
  have len: "length sorted = length props" by (simp add: sorted_def)
  have "map compressProperty (concat (map (\<lambda>s. slice sorted s (s + n)) (starts n (length props) 0)))
        = map compressProperty sorted"
    using concat_slices [OF assms, of sorted 0] by (simp add: len)
  then have "concat (map (\<lambda>i. map compressProperty (slice sorted i (i + n))) (starts n (length props) 0))
        = map compressProperty sorted"
    by (simp add: map_concat o_def)
  then show ?thesis
    by (simp add: createOptimizedChunks_Some [OF assms] writeChunk_fields o_def
        sorted_def [symmetric])
qed




lemma filter_address_sort_key:
  fixes collate :: "string \<Rightarrow> 'k::linorder" and props :: "property list"
  shows "filter (\<lambda>p. address p = a) (sort_key (\<lambda>p. collate (address p)) props)
     = filter (\<lambda>p. address p = a) props"
proof -
  have h: "filter (\<lambda>p. address p = a) xs
        = filter (\<lambda>p. address p = a) (filter (\<lambda>p. collate (address p) = collate a) xs)"
    for xs :: "property list"
    by (induction xs) auto
  have "filter (\<lambda>p. address p = a) (sort_key (\<lambda>p. collate (address p)) props)
      = filter (\<lambda>p. address p = a)
          (filter (\<lambda>p. collate (address p) = collate a)
             (sort_key (\<lambda>p. collate (address p)) props))"
    by (rule h)
  also have "\<dots> = filter (\<lambda>p. address p = a)
                   (filter (\<lambda>p. collate (address p) = collate a) props)"
    using sort_key_stable [of "\<lambda>p. collate (address p)" "collate a" props] by simp
  also have "\<dots> = filter (\<lambda>p. address p = a) props"
    by (rule h [symmetric])
  finally show ?thesis .
qed

text \<open>
  Claim C5. Before it cuts a year's records into pages, ChunkWriter sorts them by full
  address: the pages are pieces of a list that is ascending in the collation order of
  the addresses, holds the same records as the input, and keeps the records of each
  address in their input order (the sort is stable).
\<close>

theorem createOptimizedChunks_stable_sort:
  fixes collate :: "string \<Rightarrow> 'k::linorder"
  shows "\<exists>res sorted.
     createOptimizedChunks collate (recordsPerChunkOf c) yr props = Some res
     \<and> concat (map (\<lambda>f. chunkProperties (snd f)) (chunkFiles res)) = map compressProperty sorted
     \<and> sorted_wrt (\<lambda>p q. collate (address p) \<le> collate (address q)) sorted
     \<and> mset sorted = mset props
     \<and> (\<forall>a. filter (\<lambda>p. address p = a) sorted = filter (\<lambda>p. address p = a) props)"
proof -
  from chunkFiles_concat [OF recordsPerChunkOf_pos, of collate c yr props]
  obtain res where
    "createOptimizedChunks collate (recordsPerChunkOf c) yr props = Some res"
    "concat (map (\<lambda>f. chunkProperties (snd f)) (chunkFiles res))
       = map compressProperty (sort_key (\<lambda>p. collate (address p)) props)"
    by (elim exE conjE) (rule that; assumption)
  moreover have "sorted_wrt (\<lambda>p q. collate (address p) \<le> collate (address q))
      (sort_key (\<lambda>p. collate (address p)) props)"
    using sorted_sort_key [of "\<lambda>p. collate (address p)" props]
    by (simp add: sorted_map)
  ultimately show ?thesis
    using filter_address_sort_key [of _ collate props]
    by (intro exI [of _ res] exI [of _ "sort_key (\<lambda>p. collate (address p)) props"]) simp
qed

section \<open>Properties of ArchiveScanner\<close>

lemma dat_not_zip: "endsWith s ''.dat'' \<Longrightarrow> \<not> endsWith s ''.zip''"
  by (cases "rev s") (auto simp: endsWith_def)

lemma isZip_not_isDat: "isZip e \<Longrightarrow> \<not> isDat e"
  using dat_not_zip by (auto simp: isZip_def isDat_def)

lemma scanEntry_eq:
  "scanEntry e = (if isDat e then [e] else []) @ (if isZip e then scanNested (getData e) else [])"
  by (cases e) (simp add: isDat_def isZip_def)

lemma entryPaths_eq:
  "entryPaths i e =
     (if isDat e then [([i], e)] else [])
     @ (if isZip e then map (\<lambda>(p, x). (i # p, x)) (nestedPaths (getData e)) else [])"
  by (cases e) (simp add: isDat_def isZip_def)

lemma scanPaths_entries:
  "map snd (scanPaths z) = findDATFilesRecursively z"
  "map snd (scanFrom i es) = concat (map scanEntry es)"
  "map snd (entryPaths i e) = scanEntry e"
  "map snd (nestedPaths d) = scanNested d"
proof (induction z and i es and i e and d rule: scanPaths_scanFrom_entryPaths_nestedPaths.induct)
  case (4 i name dir d)
  then show ?case
    by (auto simp: o_def case_prod_beta)
qed auto

lemma scanPaths_sorted:
  "sorted_wrt (<) (map fst (scanPaths z))"
  "sorted_wrt (<) (map fst (scanFrom i es))
     \<and> (\<forall>p \<in> fst ` set (scanFrom i es). \<exists>j q. p = j # q \<and> i \<le> j)"
  "sorted_wrt (<) (map fst (entryPaths i e)) \<and> (\<forall>p \<in> fst ` set (entryPaths i e). \<exists>q. p = i # q)"
  "sorted_wrt (<) (map fst (nestedPaths d))"
proof (induction z and i es and i e and d rule: scanPaths_scanFrom_entryPaths_nestedPaths.induct)
  case (1 es)
  then show ?case by simp
next
  case (2 i)
  then show ?case by simp
next
  case (3 i e es)
  have "p < p'" if "p \<in> fst ` set (entryPaths i e)" "p' \<in> fst ` set (scanFrom (Suc i) es)" for p p'
  proof -
    from that 3 obtain q j q' where "p = i # q" "p' = j # q'" "Suc i \<le> j"
      by blast
    then show ?thesis by simp
  qed
  moreover have "\<exists>j q. p = j # q \<and> i \<le> j" if "p \<in> fst ` set (scanFrom (Suc i) es)" for p
  proof -
    from that 3 obtain j q where "p = j # q" "Suc i \<le> j" by blast
    then show ?thesis by auto
  qed
  ultimately show ?case
    using 3 by (auto simp: sorted_wrt_append)
next
  case (4 i name dir d)
  have "sorted_wrt (<) (map fst (map (\<lambda>(p, x). (i # p, x)) ps))"
    if "sorted_wrt (<) (map fst ps)" for ps :: "(nat list \<times> entry) list"
    using that by (induction ps) auto
  with 4 show ?case
    by (auto simp: dat_not_zip)
qed auto




lemma scanPaths_sound:
  "(p, x) \<in> set (scanPaths z) \<longrightarrow> scannedAt z p x"
  "(p, x) \<in> set (scanFrom i es) \<longrightarrow>
     (\<exists>j q. p = (i + j) # q \<and> j < length es
        \<and> ((q = [] \<and> isDat (es ! j) \<and> x = es ! j)
           \<or> (isZip (es ! j) \<and> (\<exists>a. getData (es ! j) = Nested a \<and> scannedAt a q x))))"
  "(p, x) \<in> set (entryPaths i e) \<longrightarrow>
     (\<exists>q. p = i # q
        \<and> ((q = [] \<and> isDat e \<and> x = e)
           \<or> (isZip e \<and> (\<exists>a. getData e = Nested a \<and> scannedAt a q x))))"
  "(p, x) \<in> set (nestedPaths d) \<longrightarrow> (\<exists>a. d = Nested a \<and> scannedAt a p x)"
proof (induction z and i es and i e and d arbitrary: p x and p x and p x and p x
    rule: scanPaths_scanFrom_entryPaths_nestedPaths.induct)
  case (1 es)
  show ?case
  proof
    assume "(p, x) \<in> set (scanPaths (Archive es))"
    then have "(p, x) \<in> set (scanFrom 0 es)" by simp
    with 1 have "\<exists>j q. p = (0 + j) # q \<and> j < length es
        \<and> ((q = [] \<and> isDat (es ! j) \<and> x = es ! j)
           \<or> (isZip (es ! j) \<and> (\<exists>a. getData (es ! j) = Nested a \<and> scannedAt a q x)))"
      by (rule mp)
    then obtain j q where j: "p = j # q" "j < length es"
      and c: "(q = [] \<and> isDat (es ! j) \<and> x = es ! j)
        \<or> (isZip (es ! j) \<and> (\<exists>a. getData (es ! j) = Nested a \<and> scannedAt a q x))"
      by auto
    from c show "scannedAt (Archive es) p x"
    proof
      assume "q = [] \<and> isDat (es ! j) \<and> x = es ! j"
      with j show ?thesis by (simp add: scannedAt.here)
    next
      assume "isZip (es ! j) \<and> (\<exists>a. getData (es ! j) = Nested a \<and> scannedAt a q x)"
      then obtain a where "isZip (es ! j)" "getData (es ! j) = Nested a" "scannedAt a q x"
        by auto
      with j show ?thesis by (simp add: scannedAt.nested)
    qed
  qed
next
  case (2 i)
  then show ?case by simp
next
  case (3 i e es)
  show ?case
  proof
    assume "(p, x) \<in> set (scanFrom i (e # es))"
    then consider "(p, x) \<in> set (entryPaths i e)" | "(p, x) \<in> set (scanFrom (Suc i) es)"
      by auto
    then show "\<exists>j q. p = (i + j) # q \<and> j < length (e # es)
        \<and> ((q = [] \<and> isDat ((e # es) ! j) \<and> x = (e # es) ! j)
           \<or> (isZip ((e # es) ! j) \<and> (\<exists>a. getData ((e # es) ! j) = Nested a \<and> scannedAt a q x)))"
    proof cases
      case 1
      with 3(1) have "\<exists>q. p = i # q
        \<and> ((q = [] \<and> isDat e \<and> x = e) \<or> (isZip e \<and> (\<exists>a. getData e = Nested a \<and> scannedAt a q x)))"
        by (rule mp)
      then obtain q where "p = i # q"
        "(q = [] \<and> isDat e \<and> x = e) \<or> (isZip e \<and> (\<exists>a. getData e = Nested a \<and> scannedAt a q x))"
        by (elim exE conjE) (rule that; assumption)
      then show ?thesis
        by (intro exI [of _ 0] exI [of _ q]) simp
    next
      case 2
      with 3(2) have "\<exists>j q. p = (Suc i + j) # q \<and> j < length es
        \<and> ((q = [] \<and> isDat (es ! j) \<and> x = es ! j)
          \<or> (isZip (es ! j) \<and> (\<exists>a. getData (es ! j) = Nested a \<and> scannedAt a q x)))"
        by (rule mp)
      then obtain j q where "p = (Suc i + j) # q" "j < length es"
        "(q = [] \<and> isDat (es ! j) \<and> x = es ! j)
          \<or> (isZip (es ! j) \<and> (\<exists>a. getData (es ! j) = Nested a \<and> scannedAt a q x))"
        by (elim exE conjE) (rule that; assumption)
      then show ?thesis
        by (intro exI [of _ "Suc j"] exI [of _ q]) simp
    qed
  qed
next
  case (4 i name dir d)
  show ?case
  proof
    assume m: "(p, x) \<in> set (entryPaths i (Entry name dir d))"
    show "\<exists>q. p = i # q
        \<and> ((q = [] \<and> isDat (Entry name dir d) \<and> x = Entry name dir d)
           \<or> (isZip (Entry name dir d)
              \<and> (\<exists>a. getData (Entry name dir d) = Nested a \<and> scannedAt a q x)))"
    proof (cases "isZip (Entry name dir d)")
      case False
      with m have "p = [i] \<and> isDat (Entry name dir d) \<and> x = Entry name dir d"
        by (simp add: entryPaths_eq split: if_splits)
      then show ?thesis by simp
    next
      case True
      then have z: "\<not> dir \<and> endsWith (toLowerCase name) ''.zip''"
        by (simp add: isZip_def)
      from True have "\<not> isDat (Entry name dir d)" by (rule isZip_not_isDat)
      with m True obtain q where q: "p = i # q" "(q, x) \<in> set (nestedPaths d)"
        by (auto simp: entryPaths_eq)
      from 4 [OF z] q(2) have "\<exists>a. d = Nested a \<and> scannedAt a q x"
        by (rule mp)
      with q(1) True show ?thesis by simp
    qed
  qed
next
  case 5
  show ?case by simp
next
  case (6 b)
  show ?case by simp
next
  case (7 z)
  then show ?case by simp
qed


lemma scanFrom_member:
  "j < length es \<Longrightarrow> (q, x) \<in> set (entryPaths (i + j) (es ! j)) \<Longrightarrow> (q, x) \<in> set (scanFrom i es)"
proof (induction es arbitrary: i j)
  case Nil
  then show ?case by simp
next
  case (Cons e es)
  show ?case
  proof (cases j)
    case 0
    with Cons.prems show ?thesis by simp
  next
    case (Suc k)
    with Cons.prems have "k < length es" "(q, x) \<in> set (entryPaths (Suc i + k) (es ! k))"
      by simp_all
    from Cons.IH [OF this] show ?thesis by simp
  qed
qed

lemma scanPaths_complete: "scannedAt z p x \<Longrightarrow> (p, x) \<in> set (scanPaths z)"
proof (induction rule: scannedAt.induct)
  case (here i es e)
  then have "([i], e) \<in> set (entryPaths (0 + i) (es ! i))"
    by (simp add: entryPaths_eq)
  with here(1) show ?case
    using scanFrom_member [of i es "[i]" e 0] by simp
next
  case (nested i es z p e)
  then have "(i # p, e) \<in> set (entryPaths (0 + i) (es ! i))"
    by (force simp: entryPaths_eq)
  with nested(1) show ?case
    using scanFrom_member [of i es "i # p" e 0] by simp
qed


lemma scan_skips_unopened:
  assumes "isZip bad" and "\<forall>n. getData bad \<noteq> Nested n"
  shows "findDATFilesRecursively (Archive (before @ bad # after)) =
         findDATFilesRecursively (Archive before) @ findDATFilesRecursively (Archive after)"
  using assms by (cases "getData bad") (auto simp: scanEntry_eq isZip_not_isDat)

lemma exampleArchive_scan:
  "map entryName (findDATFilesRecursively exampleArchive)
     = [''a.DAT'', ''dir/b.dat'', ''c.dat'', ''e.dat'']"
  by code_simp

text \<open>
  Claim C7, as the code has it. For every archive the scanner returns the raw-data
  entries found at every nesting depth that is reached through entries named \<open>.zip\<close>
  which open as archives: each occurrence once, in depth-first order, which is the
  order of the paths. An archive nested under another name is not entered. A nested
  archive that does not open contributes nothing and does not stop the scan: the result
  is what was found before it followed by what is found after it.
\<close>

theorem findDATFilesRecursively_depth_first:
  "(\<exists>ps. findDATFilesRecursively z = map snd ps
         \<and> sorted_wrt (<) (map fst ps)
         \<and> set ps = {(p, e). scannedAt z p e})
   \<and> (isZip bad \<and> (\<forall>n. getData bad \<noteq> Nested n) \<longrightarrow>
        findDATFilesRecursively (Archive (before @ bad # after))
          = findDATFilesRecursively (Archive before) @ findDATFilesRecursively (Archive after))"
proof -
  have "set (scanPaths z) = {(p, e). scannedAt z p e}"
    using scanPaths_sound(1) scanPaths_complete by auto
  then have "\<exists>ps. findDATFilesRecursively z = map snd ps
         \<and> sorted_wrt (<) (map fst ps)
         \<and> set ps = {(p, e). scannedAt z p e}"
    using scanPaths_entries(1) [of z] scanPaths_sorted(1) [of z]
    by (intro exI [of _ "scanPaths z"]) simp
  then show ?thesis
    using scan_skips_unopened by blast
qed

theorem findDATFilesRecursively_depth_first_witness:
  "(\<exists>p. scannedAt exampleArchive p (Entry ''c.dat'' False (Bytes ''B;3'')))
   \<and> isZip (Entry ''bad.zip'' False Broken)
   \<and> findDATFilesRecursively exampleArchive
       = findDATFilesRecursively (Archive (take 2 (getEntries exampleArchive)))
         @ findDATFilesRecursively (Archive (drop 3 (getEntries exampleArchive)))
   \<and> map entryName (findDATFilesRecursively exampleArchive)
       = [''a.DAT'', ''dir/b.dat'', ''c.dat'', ''e.dat'']"
proof -
  let ?bad = "Entry ''bad.zip'' False Broken"
  let ?c = "Entry ''c.dat'' False (Bytes ''B;3'')"
  note inst = findDATFilesRecursively_depth_first
    [of exampleArchive ?bad "take 2 (getEntries exampleArchive)"
        "drop 3 (getEntries exampleArchive)"]
  have z: "isZip ?bad \<and> (\<forall>n. getData ?bad \<noteq> Nested n)"
    by (simp add: isZip_def) code_simp
  have e: "exampleArchive
      = Archive (take 2 (getEntries exampleArchive) @ ?bad # drop 3 (getEntries exampleArchive))"
    by (simp add: exampleArchive_def)
  have m: "?c \<in> set (findDATFilesRecursively exampleArchive)"
    by code_simp
  from inst obtain ps where ps: "findDATFilesRecursively exampleArchive = map snd ps"
    "set ps = {(p, e). scannedAt exampleArchive p e}"
    by (elim exE conjE) (rule that; assumption)
  from m ps(1) obtain p where "(p, ?c) \<in> set ps"
    by auto
  with ps(2) have "\<exists>p. scannedAt exampleArchive p ?c"
    by auto
  moreover from inst z e have "findDATFilesRecursively exampleArchive
       = findDATFilesRecursively (Archive (take 2 (getEntries exampleArchive)))
         @ findDATFilesRecursively (Archive (drop 3 (getEntries exampleArchive)))"
    by metis
  ultimately show ?thesis
    using z exampleArchive_scan by simp
qed

text \<open>
  The claim as it is written fails: an archive nested under a name that does not end in
  \<open>.zip\<close> is an entry that is itself an archive, its raw-data entry is at the second
  nesting depth, and the scan returns nothing.
\<close>

theorem findDATFilesRecursively_misses_renamed_archive:
  "rawDataAt renamedArchive [0, 0] (Entry ''a.dat'' False (Bytes ''B;1''))
   \<and> findDATFilesRecursively renamedArchive = []"
proof -
  have d: "isDat (Entry ''a.dat'' False (Bytes ''B;1''))"
    by code_simp
  have "rawDataAt (Archive [Entry ''a.dat'' False (Bytes ''B;1'')]) [0]
          (Entry ''a.dat'' False (Bytes ''B;1''))"
    by (rule rawDataAt.here) (simp_all add: d)
  then have "rawDataAt renamedArchive [0, 0] (Entry ''a.dat'' False (Bytes ''B;1''))"
    unfolding renamedArchive_def
    by (rule rawDataAt.nested [rotated 3]) simp_all
  moreover have "findDATFilesRecursively renamedArchive = []"
    by code_simp
  ultimately show ?thesis by simp
qed

section \<open>Properties of the address files\<close>

lemma toLowerChar_idem: "toLowerChar (toLowerChar ch) = toLowerChar ch"
  by (simp add: toLowerChar_def code_def)

lemma toLowerCase_idem: "toLowerCase (toLowerCase s) = toLowerCase s"
  by (simp add: toLowerCase_def toLowerChar_idem)

lemma lowerAddress_compress: "lowerAddress (compressProperty p) = Inr (toLowerCase (address p))"
  by (simp add: lowerAddress_def propertyAddress_def compressProperty_def getProp_def orVal_def truthy_def)

lemma matchingProperties_all:
  "\<forall>p \<in> set ps. toLowerCase (address p) = toLowerCase a \<Longrightarrow>
     matchingProperties a (map compressProperty ps) = Inr (map compressProperty ps)"
  by (induction ps) (auto simp: lowerAddress_compress)

lemma load_address_file:
  assumes "github c (addressFilePath yr a) = None"
    and "files r (addressFilePath yr a) = Response 200 (Some (AddressFile d))"
    and "fileProperties d = map compressProperty ps"
    and "\<forall>p \<in> set ps. toLowerCase (address p) = toLowerCase a"
  shows "fst (loadPropertiesForAddressYear r c a yr) = map decompressProperty (map compressProperty ps)"
  using assms
  by (simp add: loadPropertiesForAddressYear_def fetchFile_def fetchGitHubFile_def
      artifactProperties_def matchingProperties_all)



lemma map_of_addToGroup:
  "map_of (addToGroup g k p) k' =
     (if k' = k then Some (groupOf g k @ [p]) else map_of g k')"
  by (induction g) (auto simp: groupOf_def)

lemma groupOf_addToGroup:
  "groupOf (addToGroup g k p) k' = (if k' = k then groupOf g k @ [p] else groupOf g k')"
  by (simp add: groupOf_def map_of_addToGroup)

lemma groupByAddress_groups:
  "groupByAddress g ps = Inr g' \<Longrightarrow>
     groupOf g' k = groupOf g k @ filter (\<lambda>p. toLowerCase (address p) = k) ps"
proof (induction ps arbitrary: g)
  case Nil
  then show ?case by simp
next
  case (Cons p ps)
  from Cons.prems have "groupByAddress (addToGroup g (toLowerCase (address p)) p) ps = Inr g'"
    by (auto simp: Let_def split: if_splits)
  from Cons.IH [OF this] show ?case
    by (auto simp: groupOf_addToGroup)
qed

lemma arrayIndex_Some: "arrayIndex k = Some n \<Longrightarrow> showNat n = k"
  by (auto simp: arrayIndex_def split: if_splits)

lemma set_map_filter_iff: "y \<in> set (List.map_filter f xs) \<longleftrightarrow> (\<exists>x \<in> set xs. f x = Some y)"
  by (induction xs) (auto simp: List.map_filter_simps split: option.splits)

lemma set_objectKeys: "set (objectKeys ob) = fst ` set ob"
proof (rule set_eqI)
  fix k
  show "k \<in> set (objectKeys ob) \<longleftrightarrow> k \<in> fst ` set ob"
  proof (cases "arrayIndex k")
    case None
    have "k \<notin> showNat ` set (List.map_filter arrayIndex (map fst ob))"
    proof
      assume "k \<in> showNat ` set (List.map_filter arrayIndex (map fst ob))"
      then obtain n where "n \<in> set (List.map_filter arrayIndex (map fst ob))" "k = showNat n"
        by blast
      then obtain k' where "arrayIndex k' = Some n" "k = showNat n"
        by (auto simp only: set_map_filter_iff)
      then have "k' = k" by (simp add: arrayIndex_Some)
      with \<open>arrayIndex k' = Some n\<close> None show False by simp
    qed
    with None show ?thesis
      by (simp add: objectKeys_def)
  next
    case (Some n)
    then have k: "showNat n = k" by (rule arrayIndex_Some)
    show ?thesis
    proof
      assume "k \<in> set (objectKeys ob)"
      with Some have "k \<in> showNat ` set (List.map_filter arrayIndex (map fst ob))"
        by (simp add: objectKeys_def)
      then obtain m where "m \<in> set (List.map_filter arrayIndex (map fst ob))" "k = showNat m"
        by blast
      then obtain k' where k': "k' \<in> set (map fst ob)" "arrayIndex k' = Some m" "k = showNat m"
        by (auto simp only: set_map_filter_iff)
      then have "k' = k" by (simp add: arrayIndex_Some)
      with k' show "k \<in> fst ` set ob" by simp
    next
      assume "k \<in> fst ` set ob"
      then have "k \<in> set (map fst ob)" by simp
      with Some have "n \<in> set (List.map_filter arrayIndex (map fst ob))"
        by (auto simp only: set_map_filter_iff)
      then have "showNat n \<in> showNat ` set (List.map_filter arrayIndex (map fst ob))"
        by (rule imageI)
      then show "k \<in> set (objectKeys ob)"
        by (simp add: objectKeys_def k)
    qed
  qed
qed

lemma groupOf_nonempty_key: "groupOf g k \<noteq> [] \<Longrightarrow> k \<in> fst ` set g"
  by (auto simp: groupOf_def split: option.splits dest: map_of_SomeD intro: rev_image_eqI)

lemma createAddressFiles_written:
  assumes "createAddressFiles yr props = Inr written"
    and "1 < length (filter (\<lambda>p. toLowerCase (address p) = a) props)"
  shows "writeAddressFile yr a (filter (\<lambda>p. toLowerCase (address p) = a) props) \<in> set written"
proof -
  from assms(1) obtain g where g: "groupByAddress [] props = Inr g"
    and w: "written = map (\<lambda>k. writeAddressFile yr k (groupOf g k))
                 (filter (\<lambda>k. 1 < length (groupOf g k)) (objectKeys g))"
    by (auto simp: createAddressFiles_def split: sum.splits)
  have grp: "groupOf g a = filter (\<lambda>p. toLowerCase (address p) = a) props"
    using groupByAddress_groups [OF g, of a] by (simp add: groupOf_def)
  with assms(2) have "groupOf g a \<noteq> []" by auto
  then have "a \<in> set (objectKeys g)"
    by (simp add: set_objectKeys groupOf_nonempty_key)
  with assms(2) grp show ?thesis
    unfolding w by (auto simp: image_iff intro!: bexI [of _ a])
qed

lemma length_hashAddress: "length (hashAddress a) \<le> 12"
  by (simp add: hashAddress_def)

lemma hashAddress_chars: "ch \<in> set (hashAddress a) \<Longrightarrow> ch \<noteq> CHR ''/'' \<and> ch \<noteq> CHR ''+'' \<and> ch \<noteq> CHR ''=''"
  by (auto simp: hashAddress_def dest: in_set_takeD)



section \<open>Evaluation of the examples\<close>

lemma digitChar_simps:
  "digitChar 0 = CHR ''0''" "digitChar 1 = CHR ''1''" "digitChar 2 = CHR ''2''"
  "digitChar 3 = CHR ''3''" "digitChar 4 = CHR ''4''" "digitChar 5 = CHR ''5''"
  "digitChar 6 = CHR ''6''" "digitChar 7 = CHR ''7''" "digitChar 8 = CHR ''8''"
  "digitChar 9 = CHR ''9''" "digitChar (Suc 0) = CHR ''1''"
  by code_simp+

lemma showNat_years:
  "showNat 2018 = ''2018''" "showNat 2019 = ''2019''" "showNat 2020 = ''2020''"
  "showNat 2021 = ''2021''"
  by (simp_all add: showNat.simps digitChar_simps)

lemma lower_rawson: "toLowerCase ''103 RAWSON ST'' = ''103 rawson st''"
  by code_simp

lemma lower_query: "toLowerCase ''Rawson'' = ''rawson''"
  by code_simp

lemma lower_lower_rawson: "toLowerCase ''103 rawson st'' = ''103 rawson st''"
  by code_simp

lemma arrayIndex_rawson: "arrayIndex ''103 rawson st'' = None"
  by (simp add: arrayIndex_def isDigit_def code_def)

lemma matching: "matchingAddresses fourYearIndex ''Rawson'' = [''103 rawson st'']"
  by (simp add: matchingAddresses_def fourYearIndex_def objectKeys_def arrayIndex_rawson
      lower_query List.map_filter_simps)

lemma arrayIndex_years:
  "arrayIndex ''2018'' = Some 2018" "arrayIndex ''2019'' = Some 2019"
  "arrayIndex ''2020'' = Some 2020" "arrayIndex ''2021'' = Some 2021"
  by (simp_all add: arrayIndex_def isDigit_def code_def digitsVal_def digitVal_def showNat_years)

lemma years: "indexYears fourYearIndex ''103 rawson st'' = [''2018'', ''2019'', ''2020'', ''2021'']"
  by (simp add: indexYears_def fourYearIndex_def yearKeys_def objectKeys_def showNat_years
      arrayIndex_years List.map_filter_simps)

lemma hash_rawson: "hashAddress ''103 rawson st'' = ''MTAzIHJhd3Nv''"
  by (simp add: hashAddress_def utf8_def code_def base64Char_def)


lemma lowerAddress_saleIn: "lowerAddress (saleIn y) = Inr ''103 rawson st''"
  by (simp add: saleIn_def lowerAddress_compress sampleRecord_def sample_address lower_rawson)

lemma fourYearFiles_eval:
  "fourYearFiles =
     [(''2018/manifest.json'',
          ManifestFile \<lparr>manifestYear = 2018, totalProperties = 1,
            chunks = [\<lparr>filename = ''properties-2018-000.json'', count = 1\<rparr>]\<rparr>),
      (''2018/properties-2018-000.json'',
          ChunkFile \<lparr>chunkYear = 2018, chunkId = ''000'', chunkCount = 1,
            chunkProperties = [saleIn 2018]\<rparr>),
      (''2019/manifest.json'',
          ManifestFile \<lparr>manifestYear = 2019, totalProperties = 1,
            chunks = [\<lparr>filename = ''properties-2019-000.json'', count = 1\<rparr>]\<rparr>),
      (''2019/properties-2019-000.json'',
          ChunkFile \<lparr>chunkYear = 2019, chunkId = ''000'', chunkCount = 1,
            chunkProperties = [saleIn 2019]\<rparr>),
      (''2020/manifest.json'',
          ManifestFile \<lparr>manifestYear = 2020, totalProperties = 1,
            chunks = [\<lparr>filename = ''properties-2020-000.json'', count = 1\<rparr>]\<rparr>),
      (''2020/properties-2020-000.json'',
          ChunkFile \<lparr>chunkYear = 2020, chunkId = ''000'', chunkCount = 1,
            chunkProperties = [saleIn 2020]\<rparr>),
      (''2021/manifest.json'',
          ManifestFile \<lparr>manifestYear = 2021, totalProperties = 1,
            chunks = [\<lparr>filename = ''properties-2021-000.json'', count = 1\<rparr>]\<rparr>),
      (''2021/properties-2021-000.json'',
          ChunkFile \<lparr>chunkYear = 2021, chunkId = ''000'', chunkCount = 1,
            chunkProperties = [saleIn 2021]\<rparr>)]"
  by (simp add: fourYearFiles_def showNat_years)


lemmas fixture_eval =
  loadPropertiesForAddressYear_def addressFilePath_def hash_rawson fetchFile_def
  fetchGitHubFile_def fourYearRemote_def fourYearFiles_eval manifestChunks_def
  artifactProperties_def lowerAddress_saleIn lower_lower_rawson

lemma collect_fixture:
  "collectAddresses fourYearRemote (emptyCache\<lparr>githubIndex := Some fourYearIndex\<rparr>) fourYearIndex 10
      [''103 rawson st''] [] = (map (\<lambda>y. decompressProperty (saleIn y)) [2018, 2019, 2020], c')
   \<Longrightarrow> github c' ''2021/manifest.json'' = None \<and> github c' ''2020/manifest.json'' \<noteq> None"
  by (simp add: years emptyCache_def fixture_eval) auto

lemma collect_fixture_fst:
  "fst (collectAddresses fourYearRemote (emptyCache\<lparr>githubIndex := Some fourYearIndex\<rparr>) fourYearIndex 10
      [''103 rawson st''] []) = map (\<lambda>y. decompressProperty (saleIn y)) [2018, 2019, 2020]"
  by (simp add: years emptyCache_def fixture_eval)


lemma constructor_address: "toUpperCase (trim (fullAddress [] [] ''CONSTRUCTOR'')) = ''CONSTRUCTOR''"
  by code_simp

lemma constructor_trim: "trim (fullAddress [] [] ''CONSTRUCTOR'') \<noteq> []"
proof
  assume "trim (fullAddress [] [] ''CONSTRUCTOR'') = []"
  then have "toUpperCase (trim (fullAddress [] [] ''CONSTRUCTOR'')) = []"
    by (simp add: toUpperCase_empty)
  then show False by (simp add: constructor_address)
qed

lemma parse_constructor:
  "parsePropertyLine (sampleWith [] ''CONSTRUCTOR'' ''500000'') 2020 = Some constructorRecord"
proof -
  have p: "orZero (parseFloat ''500000'') = Fin 500000"
    by (simp add: parseFloat_defs)
  show ?thesis
    by (simp add: parse_sampleWith constructor_trim p numGt_def numLt_def constructorRecord_def)
qed

lemma address_rawsonRecord: "address rawsonRecord = ''103 RAWSON ST''"
  by (simp add: rawsonRecord_def sampleRecord_def sample_address)

lemma address_constructorRecord: "address constructorRecord = ''CONSTRUCTOR''"
  by (simp add: constructorRecord_def sampleRecord_def constructor_address)

lemma rawson_le_constructor: "''103 RAWSON ST'' \<le> ''CONSTRUCTOR''"
  by code_simp

lemma sorted_two: "sort_key (\<lambda>p. address p) [rawsonRecord, constructorRecord] = [rawsonRecord, constructorRecord]"
  by (simp add: address_rawsonRecord address_constructorRecord rawson_le_constructor)

lemma starts_one: "starts 5000 2 0 = [0]"
  by (subst starts.simps, simp, subst starts.simps, simp)


section \<open>Properties of QueryService on absent artifacts\<close>

lemma fetch_failed: "failed resp \<Longrightarrow> fetchGitHubFile None resp = (None, None)"
  by (auto simp: failed_def fetchGitHubFile_def split: response.splits)

lemma fetchIndex_absent: "absent r \<Longrightarrow> noArtifacts c \<Longrightarrow> fetchIndex r c = (None, c)"
  by (simp add: absent_def noArtifacts_def fetchIndex_def fetch_failed)

lemma fetchFile_absent: "absent r \<Longrightarrow> noArtifacts c \<Longrightarrow> fetchFile r c name = (None, c)"
proof -
  assume a: "absent r" "noArtifacts c"
  then have "(github c)(name := None) = github c"
    by (auto simp: noArtifacts_def)
  with a show ?thesis
    by (simp add: absent_def noArtifacts_def fetchFile_def fetch_failed)
qed

lemma load_absent:
  "absent r \<Longrightarrow> noArtifacts c \<Longrightarrow> loadPropertiesForAddressYear r c addr yr = ([], c)"
  by (simp add: loadPropertiesForAddressYear_def fetchFile_absent)

lemma searchAddress_absent:
  "absent r \<Longrightarrow> noArtifacts c \<Longrightarrow> searchCache c (toLowerCase q) = None \<Longrightarrow> searchAddressFromGitHub pd r c q limit = ([], c)"
  by (simp add: searchAddressFromGitHub_def fetchIndex_absent)

lemma getProperty_absent:
  "absent r \<Longrightarrow> noArtifacts c \<Longrightarrow> propertyCache c (toLowerCase a) = None \<Longrightarrow> getPropertyFromGitHub r c a = ([], c)"
  by (simp add: getPropertyFromGitHub_def fetchIndex_absent)

lemma years_absent:
  "absent r \<Longrightarrow> noArtifacts c \<Longrightarrow> getAvailableYearsFromGitHub r c = ([], c)"
  by (simp add: getAvailableYearsFromGitHub_def fetchIndex_absent)

lemma searchYear_absent:
  "absent r \<Longrightarrow> noArtifacts c \<Longrightarrow> searchYearByPrice tn r c yr lo hi sub limit = ([], c)"
  by (simp add: searchYearByPrice_def fetchFile_absent)

lemma searchPrice_absent:
  "absent r \<Longrightarrow> noArtifacts c \<Longrightarrow> priceCache c (priceKey lo hi sub yr) = None \<Longrightarrow> 
   fst (searchPriceFromGitHub tn r c lo hi sub yr limit) = []"
  by (auto simp: searchPriceFromGitHub_def years_absent searchYear_absent sortBy_def Let_def split: option.splits)


section \<open>Properties of IndexBuilder\<close>

lemma lower_constructor: "toLowerCase ''CONSTRUCTOR'' = ''constructor''"
  by code_simp

lemma starts_two: "starts 5000 (Suc (Suc 0)) 0 = [0]"
  by (subst starts.simps, simp, subst starts.simps, simp)

lemma showNat_0: "showNat 0 = ''0''"
  by (simp add: showNat.simps digitChar_simps)

lemma chunkId_0: "padStart 3 CHR ''0'' ''0'' = ''000''"
  by (simp add: padStart_def numeral_3_eq_3)

lemma chunks_constructor:
  "createOptimizedChunks (\<lambda>s. s) (recordsPerChunkOf None) 2020 [rawsonRecord, constructorRecord]
     = Some \<lparr> chunkFiles = [(''2020/properties-2020-000.json'',
                  \<lparr>chunkYear = 2020, chunkId = ''000'', chunkCount = 2,
                    chunkProperties = map compressProperty [rawsonRecord, constructorRecord]\<rparr>)],
               manifestFile = (''2020/manifest.json'',
                  \<lparr>manifestYear = 2020, totalProperties = 2,
                    chunks = [\<lparr>filename = ''properties-2020-000.json'', count = 2\<rparr>]\<rparr>),
               addressFiles = Inl TypeError \<rparr>"
proof -
  have c: "recordsPerChunkOf None = 5000"
    by (simp add: recordsPerChunkOf_def)
  have a: "createAddressFiles 2020 [rawsonRecord, constructorRecord] = Inl TypeError"
    by (simp add: createAddressFiles_def address_rawsonRecord address_constructorRecord
      lower_rawson lower_constructor inheritedKey_def)
  show ?thesis
    by (simp add: c createOptimizedChunks_Some sorted_two starts_two writeChunk_def slice_def
        showNat_years showNat_0 chunkId_0 a address_rawsonRecord address_constructorRecord
        rawson_le_constructor)
qed

lemma yearKey_rawson: "yearKey ''103 rawson st'' = None"
  by (simp add: yearKey_def isDigit_def code_def)

text \<open>
  Claim C6 fails on the code. The line of a sale in a street named CONSTRUCTOR, with no
  house number, is accepted by the parser. For the year 2020 with this record and the
  sample record ChunkWriter writes one chunk and the manifest and then fails in
  \<open>createAddressFiles\<close>. The chunk holds one record of the address
  \<open>constructor\<close>; the index built from these files has no entry for it, because
  \<open>masterIndex['constructor']\<close> is found on the prototype and the count goes to the
  function \<open>Object\<close>.
\<close>

theorem createOptimizedIndices_inherited_key:
  "\<exists>res. parsePropertyLine (sampleWith [] ''CONSTRUCTOR'' ''500000'') 2020 = Some constructorRecord
     \<and> parsePropertyLine sampleLine 2020 = Some rawsonRecord
     \<and> createOptimizedChunks (\<lambda>s. s) (recordsPerChunkOf None) 2020
           [rawsonRecord, constructorRecord] = Some res
     \<and> addressFiles res = Inl TypeError
     \<and> writtenDisk res = constructorDisk
     \<and> yearAddresses constructorDisk 2020 = [''103 rawson st'', ''constructor'']
     \<and> createOptimizedIndices constructorDisk [2020] = [(''103 rawson st'', [(2020, 1)])]"
proof -
  have a: "yearAddresses constructorDisk 2020 = [''103 rawson st'', ''constructor'']"
    by (simp add: yearAddresses_def chunkAddresses_def constructorDisk_def showNat_years
        lowerAddress_compress address_rawsonRecord address_constructorRecord
        lower_rawson lower_constructor)
  have b: "createOptimizedIndices constructorDisk [2020] = [(''103 rawson st'', [(2020, 1)])]"
    by (simp add: createOptimizedIndices_def indexYear_def readFile_def constructorDisk_def
        manifestChunks_def artifactProperties_def indexProperty_def lookupIndex_def truthyRef_def
        counter_def showNat_years lowerAddress_compress address_rawsonRecord
        address_constructorRecord lower_rawson lower_constructor yearKey_rawson)
  have r: "parsePropertyLine sampleLine 2020 = Some rawsonRecord"
    by (simp add: parse_sampleLine rawsonRecord_def sampleRecord_def sample_address)
  show ?thesis
    using a b r parse_constructor
    by (simp add: chunks_constructor writtenDisk_def constructorDisk_def)
qed


end
